theory Spec2Isabelle
  imports Main "HOL-Library.Char_ord" "HOL-Library.List_Lexorder"
begin

section \<open>Errors\<close>

text \<open>
  Every exception the modelled code can raise is a value of this type; a function that
  can raise returns \<open>error + 'a\<close>, with \<open>Inl\<close> for the exception.
\<close>

datatype error =
    HyperscanError
  | ValueError
  | AssertionError
  | KeyError string
  | TypeError
  | JSONDecodeError
  | UnicodeDecodeError
  | Exception string
  | CollaboratorError string

section \<open>share/include_exlude.py\<close>

subsection \<open>The pattern matcher (hyperscan), an external collaborator\<close>

text \<open>
  Text is held in its UTF-8 encoding, so \<open>str.encode("utf-8")\<close> is the identity on the
  model's strings.

  The matcher is not code of the repository and is a parameter of the model. What the
  code relies on is its interface: \<open>compile\<close> builds a database from expressions, ids
  and flags and may raise \<open>hyperscan.error\<close> (\<open>None\<close>); \<open>scan\<close> calls the match
  handler once for every match it finds, in the order \<open>found\<close> lists their ids, and stops
  as soon as the handler returns a true value. \<open>halt_raises\<close> says whether a scan the
  handler stopped ends with \<open>hyperscan.error\<close> (the library's scan-terminated code) or
  returns; \<open>fails\<close> says whether a scan that the handler did not stop ends with
  \<open>hyperscan.error\<close>, which is a runtime error of the matcher on that line.
\<close>

type_synonym bytes = string

definition encode_utf8 :: "string \<Rightarrow> bytes" where
  "encode_utf8 s = s"

definition HS_FLAG_DOTALL :: nat where
  "HS_FLAG_DOTALL = 2"

record 'db hyperscan =
  compile :: "bytes list \<Rightarrow> int list \<Rightarrow> nat \<Rightarrow> nat list \<Rightarrow> 'db option"
  found :: "'db \<Rightarrow> bytes \<Rightarrow> int list"
  fails :: "'db \<Rightarrow> bytes \<Rightarrow> bool"
  halt_raises :: bool

text \<open>The calls made to the matcher, in order: the effect the filter has on it.\<close>

datatype 'db hs_call = Compile "bytes list" "int list" | Scan 'db bytes

text \<open>
  \<open>deliver\<close> is the matcher's loop over its matches: the handler is called with each id
  and the caller's state; a handler result of \<open>Some True\<close> (Python's \<open>True\<close>, as
  opposed to \<open>None\<close>) stops the scan. The result says whether the scan was stopped.
\<close>

fun deliver :: "(int \<Rightarrow> 's \<Rightarrow> bool option \<times> 's) \<Rightarrow> int list \<Rightarrow> 's \<Rightarrow> bool \<times> 's" where
  "deliver handler [] s = (False, s)"
| "deliver handler (match_id # rest) s =
     (case handler match_id s of
        (Some True, s') \<Rightarrow> (True, s')
      | (_, s') \<Rightarrow> deliver handler rest s')"

text \<open>\<open>Database.scan\<close>: the first component says whether \<open>hyperscan.error\<close> was raised.\<close>

definition db_scan ::
  "'db hyperscan \<Rightarrow> 'db \<Rightarrow> bytes \<Rightarrow> (int \<Rightarrow> 's \<Rightarrow> bool option \<times> 's) \<Rightarrow> 's \<Rightarrow> bool \<times> 's" where
  "db_scan hs db line match_event_handler s =
     (case deliver match_event_handler (found hs db line) s of
        (True, s') \<Rightarrow> (halt_raises hs, s')
      | (False, s') \<Rightarrow> (fails hs db line, s'))"

subsection \<open>IncludeExcludeRule\<close>

record 'db IncludeExcludeRule =
  patterns :: "string list"
  hyperscan_db :: 'db

text \<open>
  \<open>IncludeExcludeRule.__init__\<close>. The ids are \<open>pattern_n + 1\<close>, so every id is positive.
  \<open>zip(*hyperscan_patterns)\<close> yields nothing for an empty pattern list and the unpacking
  into three names raises \<open>ValueError\<close> before the matcher is reached.
\<close>

definition IncludeExcludeRule_init ::
  "'db hyperscan \<Rightarrow> string list \<Rightarrow> 'db hs_call list
    \<Rightarrow> (error + 'db IncludeExcludeRule) \<times> 'db hs_call list" where
  "IncludeExcludeRule_init hs pats calls =
     (if pats = [] then (Inl ValueError, calls)
      else
        let expressions = map encode_utf8 pats;
            ids = map (\<lambda>pattern_n. int pattern_n + 1) [0..<length pats];
            flags = replicate (length pats) HS_FLAG_DOTALL;
            calls' = calls @ [Compile expressions ids]
        in case compile hs expressions ids (length pats) flags of
             None \<Rightarrow> (Inl HyperscanError, calls')
           | Some db \<Rightarrow> (Inr \<lparr>patterns = pats, hyperscan_db = db\<rparr>, calls'))"

text \<open>\<open>IncludeExcludeRule.scan\<close>: one call of the matcher, recorded.\<close>

definition rule_scan ::
  "'db hyperscan \<Rightarrow> 'db IncludeExcludeRule \<Rightarrow> bytes \<Rightarrow> (int \<Rightarrow> 's \<Rightarrow> bool option \<times> 's) \<Rightarrow> 's
    \<Rightarrow> 'db hs_call list \<Rightarrow> bool \<times> 's \<times> 'db hs_call list" where
  "rule_scan hs rule line match_event_handler s calls =
     (case db_scan hs (hyperscan_db rule) line match_event_handler s of
        (raised, s') \<Rightarrow> (raised, s', calls @ [Scan (hyperscan_db rule) line]))"

subsection \<open>IncludeExcludeFilter\<close>

text \<open>
  The object's attributes; the leading underscore of the private names is dropped.
\<close>

record 'db IncludeExcludeFilter =
  include_rules :: "'db IncludeExcludeRule option"
  exclude_rules :: "'db IncludeExcludeRule option"
  always_yield :: bool
  include_only :: bool
  exclude_only :: bool
  is_included_matched :: bool
  is_excluded_matched :: bool

text \<open>
  \<open>IncludeExcludeFilter.__init__\<close>: a rule set is built only for a pattern list that is
  neither \<open>None\<close> nor empty; an exception of a rule's constructor leaves the
  constructor of the filter.
\<close>

definition build_rules ::
  "'db hyperscan \<Rightarrow> string list option \<Rightarrow> 'db hs_call list
    \<Rightarrow> (error + 'db IncludeExcludeRule option) \<times> 'db hs_call list" where
  "build_rules hs pats calls =
     (case pats of
        None \<Rightarrow> (Inr None, calls)
      | Some ps \<Rightarrow>
          if length ps > 0 then
            (case IncludeExcludeRule_init hs ps calls of
               (Inl e, calls') \<Rightarrow> (Inl e, calls')
             | (Inr rule, calls') \<Rightarrow> (Inr (Some rule), calls'))
          else (Inr None, calls))"

definition IncludeExcludeFilter_init ::
  "'db hyperscan \<Rightarrow> string list option \<Rightarrow> string list option \<Rightarrow> 'db hs_call list
    \<Rightarrow> (error + 'db IncludeExcludeFilter) \<times> 'db hs_call list" where
  "IncludeExcludeFilter_init hs include_patterns exclude_patterns calls =
     (case build_rules hs include_patterns calls of
        (Inl e, calls1) \<Rightarrow> (Inl e, calls1)
      | (Inr inc, calls1) \<Rightarrow>
          (case build_rules hs exclude_patterns calls1 of
             (Inl e, calls2) \<Rightarrow> (Inl e, calls2)
           | (Inr exc, calls2) \<Rightarrow>
               (Inr \<lparr>include_rules = inc,
                     exclude_rules = exc,
                     always_yield = (inc = None \<and> exc = None),
                     include_only = (inc \<noteq> None \<and> exc = None),
                     exclude_only = (exc \<noteq> None \<and> inc = None),
                     is_included_matched = False,
                     is_excluded_matched = False\<rparr>, calls2)))"

text \<open>The two match handlers, closures over the filter object.\<close>

definition on_match_included ::
  "int \<Rightarrow> 'db IncludeExcludeFilter \<Rightarrow> bool option \<times> 'db IncludeExcludeFilter" where
  "on_match_included match_id self =
     (if match_id > 0 then (Some True, self\<lparr>is_included_matched := True\<rparr>) else (None, self))"

definition on_match_excluded ::
  "int \<Rightarrow> 'db IncludeExcludeFilter \<Rightarrow> bool option \<times> 'db IncludeExcludeFilter" where
  "on_match_excluded match_id self =
     (if match_id > 0 then (Some True, self\<lparr>is_excluded_matched := True\<rparr>) else (None, self))"

text \<open>
  \<open>_is_included\<close> and \<open>_is_excluded\<close>: the assertion, the reset of the flag, the scan,
  \<open>True\<close> on \<open>hyperscan.error\<close>, otherwise the flag.
\<close>

definition is_included ::
  "'db hyperscan \<Rightarrow> 'db IncludeExcludeFilter \<Rightarrow> string \<Rightarrow> 'db hs_call list
    \<Rightarrow> (error + bool) \<times> 'db IncludeExcludeFilter \<times> 'db hs_call list" where
  "is_included hs self message calls =
     (case include_rules self of
        None \<Rightarrow> (Inl AssertionError, self, calls)
      | Some rule \<Rightarrow>
          (case rule_scan hs rule (encode_utf8 message) on_match_included
                  (self\<lparr>is_included_matched := False\<rparr>) calls of
             (raised, self', calls') \<Rightarrow>
               if raised then (Inr True, self', calls')
               else if is_included_matched self' then (Inr True, self', calls')
               else (Inr False, self', calls')))"

definition is_excluded ::
  "'db hyperscan \<Rightarrow> 'db IncludeExcludeFilter \<Rightarrow> string \<Rightarrow> 'db hs_call list
    \<Rightarrow> (error + bool) \<times> 'db IncludeExcludeFilter \<times> 'db hs_call list" where
  "is_excluded hs self message calls =
     (case exclude_rules self of
        None \<Rightarrow> (Inl AssertionError, self, calls)
      | Some rule \<Rightarrow>
          (case rule_scan hs rule (encode_utf8 message) on_match_excluded
                  (self\<lparr>is_excluded_matched := False\<rparr>) calls of
             (raised, self', calls') \<Rightarrow>
               if raised then (Inr True, self', calls')
               else if is_excluded_matched self' then (Inr True, self', calls')
               else (Inr False, self', calls')))"

text \<open>\<open>IncludeExcludeFilter.filter\<close>, named \<open>filter_message\<close> beside HOL's \<open>filter\<close>.\<close>

definition filter_message ::
  "'db hyperscan \<Rightarrow> 'db IncludeExcludeFilter \<Rightarrow> string \<Rightarrow> 'db hs_call list
    \<Rightarrow> (error + bool) \<times> 'db IncludeExcludeFilter \<times> 'db hs_call list" where
  "filter_message hs self message calls =
     (if always_yield self then (Inr True, self, calls)
      else if include_only self then is_included hs self message calls
      else if exclude_only self then
        (case is_excluded hs self message calls of
           (Inl e, self', calls') \<Rightarrow> (Inl e, self', calls')
         | (Inr excluded, self', calls') \<Rightarrow> (Inr (\<not> excluded), self', calls'))
      else
        (case is_excluded hs self message calls of
           (Inl e, self', calls') \<Rightarrow> (Inl e, self', calls')
         | (Inr True, self', calls') \<Rightarrow> (Inr False, self', calls')
         | (Inr False, self', calls') \<Rightarrow> is_included hs self' message calls'))"

text \<open>
  Vocabulary for the properties. A rule set matches a line when the matcher reports a
  match with a positive id to the handler (the ids given to \<open>compile\<close> are all
  positive); a scan has a runtime error when it fails without having been stopped by the
  handler.
\<close>

definition rule_matches :: "'db hyperscan \<Rightarrow> 'db IncludeExcludeRule \<Rightarrow> string \<Rightarrow> bool" where
  "rule_matches hs rule message =
     (\<exists>match_id \<in> set (found hs (hyperscan_db rule) (encode_utf8 message)). match_id > 0)"

definition runtime_error :: "'db hyperscan \<Rightarrow> 'db IncludeExcludeRule \<Rightarrow> string \<Rightarrow> bool" where
  "runtime_error hs rule message =
     (\<not> rule_matches hs rule message \<and> fails hs (hyperscan_db rule) (encode_utf8 message))"

text \<open>The same for the rule sets of a filter; an absent rule set neither matches nor fails.\<close>

definition include_matches :: "'db hyperscan \<Rightarrow> 'db IncludeExcludeFilter \<Rightarrow> string \<Rightarrow> bool" where
  "include_matches hs self message =
     (case include_rules self of None \<Rightarrow> False | Some rule \<Rightarrow> rule_matches hs rule message)"

definition exclude_matches :: "'db hyperscan \<Rightarrow> 'db IncludeExcludeFilter \<Rightarrow> string \<Rightarrow> bool" where
  "exclude_matches hs self message =
     (case exclude_rules self of None \<Rightarrow> False | Some rule \<Rightarrow> rule_matches hs rule message)"

definition include_error :: "'db hyperscan \<Rightarrow> 'db IncludeExcludeFilter \<Rightarrow> string \<Rightarrow> bool" where
  "include_error hs self message =
     (case include_rules self of None \<Rightarrow> False | Some rule \<Rightarrow> runtime_error hs rule message)"

definition exclude_error :: "'db hyperscan \<Rightarrow> 'db IncludeExcludeFilter \<Rightarrow> string \<Rightarrow> bool" where
  "exclude_error hs self message =
     (case exclude_rules self of None \<Rightarrow> False | Some rule \<Rightarrow> runtime_error hs rule message)"

text \<open>The pattern lists a filter was built from.\<close>

definition include_patterns_of :: "'db IncludeExcludeFilter \<Rightarrow> string list option" where
  "include_patterns_of self = map_option patterns (include_rules self)"

definition exclude_patterns_of :: "'db IncludeExcludeFilter \<Rightarrow> string list option" where
  "exclude_patterns_of self = map_option patterns (exclude_rules self)"

text \<open>
  A matcher for closed examples: every pattern is a literal, found where it occurs as a
  substring of the line; compilation and scanning never fail.
\<close>

fun is_prefix :: "string \<Rightarrow> string \<Rightarrow> bool" where
  "is_prefix [] ys = True"
| "is_prefix (x # xs) [] = False"
| "is_prefix (x # xs) (y # ys) = (x = y \<and> is_prefix xs ys)"

fun occurs_in :: "string \<Rightarrow> string \<Rightarrow> bool" where
  "occurs_in p [] = (p = [])"
| "occurs_in p (y # ys) = (is_prefix p (y # ys) \<or> occurs_in p ys)"

definition literal_matcher :: "((bytes \<times> int) list) hyperscan" where
  "literal_matcher =
     \<lparr>compile = (\<lambda>expressions ids elements flags. Some (zip expressions ids)),
      found = (\<lambda>db line. map snd (filter (\<lambda>(p, i). occurs_in p line) db)),
      fails = (\<lambda>db line. False),
      halt_raises = True\<rparr>"

text \<open>The same matcher, except that every scan the handler does not stop fails.\<close>

definition failing_matcher :: "((bytes \<times> int) list) hyperscan" where
  "failing_matcher = literal_matcher\<lparr>fails := (\<lambda>db line. True)\<rparr>"

section \<open>shippers/es.py\<close>

subsection \<open>Python's format specification \<open>012d\<close>\<close>

definition digit_char :: "nat \<Rightarrow> char" where
  "digit_char d = ''0123456789'' ! d"

fun digits :: "nat \<Rightarrow> string" where
  "digits n = (if n < 10 then [digit_char n] else digits (n div 10) @ [digit_char (n mod 10)])"

declare digits.simps [simp del]

definition zero_fill :: "nat \<Rightarrow> string \<Rightarrow> string" where
  "zero_fill width s = replicate (width - length s) (CHR ''0'') @ s"

text \<open>
  \<open>f"{offset:012d}"\<close>: decimal digits, filled with zeros after the sign up to a total
  width of twelve characters; a longer number is not cut.
\<close>

definition format_012d :: "int \<Rightarrow> string" where
  "format_012d offset =
     (if offset < 0 then CHR ''-'' # zero_fill 11 (digits (nat (- offset)))
      else zero_fill 12 (digits (nat offset)))"

text \<open>
  Reading a string of decimal digits back as a number, to say what the formatted offset
  denotes.
\<close>

definition digit_val :: "char \<Rightarrow> nat" where
  "digit_val c = of_char c - 48"

fun decimal_value :: "string \<Rightarrow> nat" where
  "decimal_value [] = 0"
| "decimal_value (c # cs) = digit_val c * 10 ^ length cs + decimal_value cs"

definition is_digit :: "char \<Rightarrow> bool" where
  "is_digit c = (c \<in> set ''0123456789'')"

subsection \<open>The event payload and the shipper\<close>

text \<open>
  The event dictionary, with the keys the shipper reads as fields, of the types the code
  annotates their values with, and the keys it writes as options that are \<open>None\<close> while
  the key is absent. An event without the keys that are read is not an input of the model.
\<close>

record event_payload =
  fields_message :: string
  fields_log_offset :: int
  fields_aws_s3_bucket_arn :: string
  fields_aws_s3_object_key :: string
  data_stream :: "(string \<times> string \<times> string) option"
  event :: "(string \<times> string) option"
  tags :: "string list option"
  op_type :: "string option"
  index :: "string option"
  ident :: "string option"

text \<open>
  \<open>_bulk_actions\<close> and \<open>_bulk_batch_size\<close> are class attributes with the values below;
  the model is of one shipper object.
\<close>

record ElasticsearchShipper =
  bulk_actions :: "event_payload list"
  bulk_batch_size :: int
  dataset :: string
  namespace :: string
  es_index :: string

definition ElasticsearchShipper_init :: "string \<Rightarrow> string \<Rightarrow> ElasticsearchShipper" where
  "ElasticsearchShipper_init ds ns =
     \<lparr>bulk_actions = [], bulk_batch_size = 10000, dataset = ds, namespace = ns,
      es_index = ''logs-'' @ ds @ ''-'' @ ns\<rparr>"

text \<open>
  \<open>_s3_object_id\<close>. \<open>hashlib.sha256(...).hexdigest()\<close> is a parameter: the hexadecimal
  digest of a byte string.
\<close>

definition src_of :: "event_payload \<Rightarrow> string" where
  "src_of event_payload = fields_aws_s3_bucket_arn event_payload @ fields_aws_s3_object_key event_payload"

definition s3_object_id :: "(bytes \<Rightarrow> string) \<Rightarrow> event_payload \<Rightarrow> string" where
  "s3_object_id sha256_hexdigest event_payload =
     (let offset = fields_log_offset event_payload;
          src = src_of event_payload;
          hex_prefix = take 10 (sha256_hexdigest (encode_utf8 src))
      in hex_prefix @ ''-'' @ format_012d offset)"

definition replace_dot :: "string \<Rightarrow> string" where
  "replace_dot s = map (\<lambda>c. if c = CHR ''.'' then CHR ''-'' else c) s"

definition enrich_event :: "ElasticsearchShipper \<Rightarrow> event_payload \<Rightarrow> event_payload" where
  "enrich_event self event_payload =
     event_payload
       \<lparr>data_stream := Some (''logs'', dataset self, namespace self),
        event := Some (dataset self, fields_message event_payload),
        tags := Some [''preserve_original_event'', ''forwarded'', replace_dot (dataset self)]\<rparr>"

text \<open>
  The bulk client is a parameter: \<open>es_bulk actions\<close> is \<open>None\<close> when the call returns
  and the exception when it raises. The list of batches handed to it is the effect of the
  shipper on the backend. \<open>send\<close> and \<open>flush\<close> return the exception that left them, if
  any, the shipper and the batches written so far.
\<close>

definition send ::
  "(bytes \<Rightarrow> string) \<Rightarrow> (event_payload list \<Rightarrow> error option) \<Rightarrow> ElasticsearchShipper
    \<Rightarrow> event_payload \<Rightarrow> event_payload list list
    \<Rightarrow> error option \<times> ElasticsearchShipper \<times> event_payload list list" where
  "send sha256_hexdigest es_bulk self ev written =
     (let ev1 = enrich_event self ev;
          ev2 = ev1\<lparr>op_type := Some ''create''\<rparr>;
          ev3 = ev2\<lparr>index := Some (es_index self)\<rparr>;
          ev4 = ev3\<lparr>ident := Some (s3_object_id sha256_hexdigest ev3)\<rparr>;
          self1 = self\<lparr>bulk_actions := bulk_actions self @ [ev4]\<rparr>
      in if int (length (bulk_actions self1)) < bulk_batch_size self1 then (None, self1, written)
         else
           (case es_bulk (bulk_actions self1) of
              Some e \<Rightarrow> (Some e, self1, written @ [bulk_actions self1])
            | None \<Rightarrow> (None, self1\<lparr>bulk_actions := []\<rparr>, written @ [bulk_actions self1])))"

definition flush ::
  "(event_payload list \<Rightarrow> error option) \<Rightarrow> ElasticsearchShipper \<Rightarrow> event_payload list list
    \<Rightarrow> error option \<times> ElasticsearchShipper \<times> event_payload list list" where
  "flush es_bulk self written =
     (if length (bulk_actions self) > 1 then
        (case es_bulk (bulk_actions self) of
           Some e \<Rightarrow> (Some e, self, written @ [bulk_actions self])
         | None \<Rightarrow> (None, self\<lparr>bulk_actions := []\<rparr>, written @ [bulk_actions self]))
      else (None, self\<lparr>bulk_actions := []\<rparr>, written))"

section \<open>share/config.py\<close>

text \<open>
  Of an \<open>Input\<close> the handler uses only that it exists. An \<open>Input\<close> object defines neither
  \<open>__bool__\<close> nor \<open>__len__\<close>, so \<open>not event_input\<close> holds exactly for \<open>None\<close>.
\<close>

record Input =
  input_type :: string
  input_id :: string

record Config =
  inputs :: "string \<rightharpoonup> (string \<rightharpoonup> Input)"

section \<open>Decoded JSON and the Python operations on it\<close>

text \<open>
  A value as \<open>json.loads\<close> returns it. A dictionary is an association list read with
  \<open>map_of\<close>. Numbers with a fraction are not modelled.
\<close>

datatype json =
    JNull
  | JBool bool
  | JInt int
  | JStr string
  | JArr "json list"
  | JObj "(string \<times> json) list"

text \<open>The keys of a dictionary, each once, in the order of their first binding.\<close>

definition dict_keys :: "(string \<times> json) list \<Rightarrow> string list" where
  "dict_keys kvs = rev (remdups (rev (map fst kvs)))"

text \<open>\<open>x[k]\<close> for a string \<open>k\<close>: only a dictionary can be subscripted with a string.\<close>

fun py_getitem :: "json \<Rightarrow> string \<Rightarrow> error + json" where
  "py_getitem (JObj kvs) k = (case map_of kvs k of None \<Rightarrow> Inl (KeyError k) | Some v \<Rightarrow> Inr v)"
| "py_getitem _ k = Inl TypeError"

text \<open>\<open>x[k1][k2]...\<close>: the subscripts one after the other.\<close>

fun py_getpath :: "json \<Rightarrow> string list \<Rightarrow> error + json" where
  "py_getpath v [] = Inr v"
| "py_getpath v (k # ks) = (case py_getitem v k of Inl e \<Rightarrow> Inl e | Inr w \<Rightarrow> py_getpath w ks)"

text \<open>\<open>k in x\<close> for a string \<open>k\<close>.\<close>

fun py_contains :: "string \<Rightarrow> json \<Rightarrow> error + bool" where
  "py_contains k (JObj kvs) = Inr (map_of kvs k \<noteq> None)"
| "py_contains k (JArr xs) = Inr (JStr k \<in> set xs)"
| "py_contains k (JStr s) = Inr (occurs_in k s)"
| "py_contains k _ = Inl TypeError"

fun py_len :: "json \<Rightarrow> error + nat" where
  "py_len (JStr s) = Inr (length s)"
| "py_len (JArr xs) = Inr (length xs)"
| "py_len (JObj kvs) = Inr (length (dict_keys kvs))"
| "py_len _ = Inl TypeError"

text \<open>Iteration: a list gives its elements, a dictionary its keys, a string its characters.\<close>

fun py_iter :: "json \<Rightarrow> error + json list" where
  "py_iter (JArr xs) = Inr xs"
| "py_iter (JObj kvs) = Inr (map JStr (dict_keys kvs))"
| "py_iter (JStr s) = Inr (map (\<lambda>c. JStr [c]) s)"
| "py_iter _ = Inl TypeError"

text \<open>\<open>n < x\<close> for an integer \<open>n\<close>: \<open>bool\<close> is a subclass of \<open>int\<close>.\<close>

fun py_int_less :: "int \<Rightarrow> json \<Rightarrow> error + bool" where
  "py_int_less n (JInt m) = Inr (n < m)"
| "py_int_less n (JBool b) = Inr (n < (if b then 1 else 0))"
| "py_int_less n _ = Inl TypeError"

text \<open>
  \<open>Config.get_input_by_type_and_id\<close>. The keys of the inner dictionary are strings; a
  list or a dictionary is not hashable and the membership test raises on it.
\<close>

definition get_input_by_type_and_id :: "Config \<Rightarrow> string \<Rightarrow> json \<Rightarrow> error + Input option" where
  "get_input_by_type_and_id self type_name ident_value =
     (case inputs self type_name of
        None \<Rightarrow> Inr None
      | Some by_id \<Rightarrow>
          (case ident_value of
             JStr s \<Rightarrow> Inr (by_id s)
           | JArr _ \<Rightarrow> Inl TypeError
           | JObj _ \<Rightarrow> Inl TypeError
           | _ \<Rightarrow> Inr None))"

section \<open>handlers/aws/sqs_trigger.py\<close>

subsection \<open>Collaborators\<close>

text \<open>
  Not code of the repository, or not among its files, and therefore parameters:
  \<^item> \<open>json_loads\<close>: \<open>json.loads\<close> on a string, \<open>None\<close> for \<open>JSONDecodeError\<close>;
  \<^item> \<open>get_bucket_name_from_arn\<close>: the helper of \<open>utils\<close>;
  \<^item> \<open>get_by_lines bucket_name object_key range_start last_beginning_offset\<close>: the
    storage that \<open>StorageFactory.create\<close> returns for the bucket and the key, read with
    \<open>get_by_lines(range_start=..., last_beginning_offset=...)\<close>: the triples
    \<open>(log_event, beginning_offset, ending_offset)\<close> it yields, and the exception that
    ends the stream, if one does (the factory is not among the files, and the
    \<open>get_by_lines\<close> of \<open>storage/s3.py\<close> takes no arguments and yields pairs, so it is
    not the storage this handler reads);
  \<^item> \<open>valid_utf8\<close>: whether \<open>bytes.decode("UTF-8")\<close> accepts the bytes (text is held
    in its UTF-8 encoding, so decoding returns the bytes themselves);
  \<^item> \<open>py_str\<close>: what \<open>str.format\<close> writes for a value that is not a string.
  The APM span and the logger have no effect on what the generator yields and are left
  out, and so is the \<open>@timestamp\<close> field, which is the wall clock.
\<close>

type_synonym line = "bytes \<times> int \<times> int"

record collaborators =
  json_loads :: "string \<Rightarrow> json option"
  get_bucket_name_from_arn :: "json \<Rightarrow> error + string"
  get_by_lines :: "string \<Rightarrow> json \<Rightarrow> json \<Rightarrow> json \<Rightarrow> line list \<times> error option"
  valid_utf8 :: "bytes \<Rightarrow> bool"
  py_str :: "json \<Rightarrow> string"

subsection \<open>What the generator does\<close>

text \<open>
  The fields the handler writes into the copy of the default event. The copy is shallow,
  so the nested dictionaries are shared by all the events; an event of the model is the
  content at the moment it is yielded.
\<close>

record es_event =
  message :: string
  log_offset :: int
  log_file_path :: string
  aws_s3_bucket_name :: string
  aws_s3_bucket_arn :: json
  aws_s3_object_key :: json
  cloud_region :: json

text \<open>One item of the generator: the event, its offsets and the two record numbers.\<close>

type_synonym yielded = "es_event \<times> int \<times> int \<times> nat \<times> nat"

text \<open>A storage read: the arguments \<open>get_by_lines\<close> was called with.\<close>

type_synonym storage_read = "string \<times> json \<times> json \<times> json"

text \<open>
  Draining the generator: the items it yields in order, the storage reads it makes in
  order, and the exception that ends it, or \<open>None\<close> when it ends by returning.
\<close>

record outcome =
  yields :: "yielded list"
  reads :: "storage_read list"
  raised :: "error option"

definition returned :: outcome where
  "returned = \<lparr>yields = [], reads = [], raised = None\<rparr>"

definition raise_error :: "error \<Rightarrow> outcome" where
  "raise_error e = \<lparr>yields = [], reads = [], raised = Some e\<rparr>"

text \<open>What has happened so far, followed by what happens next.\<close>

definition followed_by :: "outcome \<Rightarrow> outcome \<Rightarrow> outcome" where
  "followed_by a b =
     (case raised a of
        Some e \<Rightarrow> a
      | None \<Rightarrow> \<lparr>yields = yields a @ yields b, reads = reads a @ reads b, raised = raised b\<rparr>)"

definition decode_utf8 :: "collaborators \<Rightarrow> bytes \<Rightarrow> error + string" where
  "decode_utf8 env b = (if valid_utf8 env b then Inr b else Inl UnicodeDecodeError)"

text \<open>\<open>"https://{0}.s3.{1}.amazonaws.com/{1}".format(bucket_name, object_key)\<close>\<close>

definition format_arg :: "collaborators \<Rightarrow> json \<Rightarrow> string" where
  "format_arg env v = (case v of JStr s \<Rightarrow> s | _ \<Rightarrow> py_str env v)"

definition file_path :: "collaborators \<Rightarrow> string \<Rightarrow> json \<Rightarrow> string" where
  "file_path env bucket_name object_key =
     ''https://'' @ bucket_name @ ''.s3.'' @ format_arg env object_key @ ''.amazonaws.com/''
       @ format_arg env object_key"

text \<open>An exception of a step ends the generator; otherwise the rest runs on its value.\<close>

definition or_raise :: "error + 'a \<Rightarrow> ('a \<Rightarrow> outcome) \<Rightarrow> outcome" where
  "or_raise r k = (case r of Inl e \<Rightarrow> raise_error e | Inr v \<Rightarrow> k v)"

text \<open>The copy of the default event with the fields the handler sets, lines 57 to 71.\<close>

definition make_event ::
  "collaborators \<Rightarrow> string \<Rightarrow> json \<Rightarrow> json \<Rightarrow> json \<Rightarrow> string \<Rightarrow> int \<Rightarrow> es_event" where
  "make_event env bucket_name bucket_arn object_key aws_region text beginning_offset =
     \<lparr>message = text,
      log_offset = beginning_offset,
      log_file_path = file_path env bucket_name object_key,
      aws_s3_bucket_name = bucket_name,
      aws_s3_bucket_arn = bucket_arn,
      aws_s3_object_key = object_key,
      cloud_region = aws_region\<rparr>"

text \<open>
  The loop over \<open>storage.get_by_lines(...)\<close>, lines 37 to 73: an event that ends before
  \<open>last_ending_offset\<close> is skipped (\<open>continue\<close>), every other one is decoded and
  yielded. The result is the items yielded and the exception that ended the loop, if
  any; \<open>stream_error\<close> is the exception the storage raises after its last line. An item
  is yielded before the next line is looked at, so an exception on a later line leaves
  the items yielded before it.
\<close>

fun emit_lines ::
  "collaborators \<Rightarrow> json \<Rightarrow> string \<Rightarrow> json \<Rightarrow> json \<Rightarrow> json \<Rightarrow> nat \<Rightarrow> nat
    \<Rightarrow> line list \<Rightarrow> error option \<Rightarrow> yielded list \<times> error option" where
  "emit_lines env last_ending_offset bucket_name bucket_arn object_key aws_region
       sqs_record_n s3_record_n [] stream_error = ([], stream_error)"
| "emit_lines env last_ending_offset bucket_name bucket_arn object_key aws_region
       sqs_record_n s3_record_n (l # rest) stream_error =
     (let log_event = fst l; beginning_offset = fst (snd l); ending_offset = snd (snd l) in
      case py_int_less ending_offset last_ending_offset of
        Inl e \<Rightarrow> ([], Some e)
      | Inr skip \<Rightarrow>
          if skip then
            emit_lines env last_ending_offset bucket_name bucket_arn object_key aws_region
              sqs_record_n s3_record_n rest stream_error
          else
            (case decode_utf8 env log_event of
               Inl e \<Rightarrow> ([], Some e)
             | Inr text \<Rightarrow>
                 (case emit_lines env last_ending_offset bucket_name bucket_arn object_key
                         aws_region sqs_record_n s3_record_n rest stream_error of
                    (later, err) \<Rightarrow>
                      ((make_event env bucket_name bucket_arn object_key aws_region text
                          beginning_offset,
                        beginning_offset, ending_offset, sqs_record_n, s3_record_n) # later,
                       err))))"

text \<open>\<open>s3_record[k] if k in s3_record else 0\<close>\<close>

definition get_or_zero :: "json \<Rightarrow> string \<Rightarrow> error + json" where
  "get_or_zero s3_record k =
     (case py_contains k s3_record of
        Inl e \<Rightarrow> Inl e
      | Inr present \<Rightarrow> if present then py_getitem s3_record k else Inr (JInt 0))"

text \<open>\<open>len(bucket_arn) == 0 or len(object_key) == 0\<close>, the second test only after the first.\<close>

definition either_empty :: "json \<Rightarrow> json \<Rightarrow> error + bool" where
  "either_empty bucket_arn object_key =
     (case py_len bucket_arn of
        Inl e \<Rightarrow> Inl e
      | Inr n \<Rightarrow>
          if n = 0 then Inr True
          else (case py_len object_key of Inl e \<Rightarrow> Inl e | Inr m \<Rightarrow> Inr (m = 0)))"

text \<open>
  Lines 31 to 73: the storage is created and read, and the loop runs over its lines.
\<close>

definition read_storage ::
  "collaborators \<Rightarrow> nat \<Rightarrow> nat \<Rightarrow> json \<Rightarrow> json \<Rightarrow> json \<Rightarrow> json \<Rightarrow> json \<Rightarrow> string \<Rightarrow> outcome" where
  "read_storage env sqs_record_n s3_record_n aws_region bucket_arn object_key
       last_ending_offset last_beginning_offset bucket_name =
     (case get_by_lines env bucket_name object_key last_ending_offset last_beginning_offset of
        (lines, stream_error) \<Rightarrow>
          (case emit_lines env last_ending_offset bucket_name bucket_arn object_key aws_region
                  sqs_record_n s3_record_n lines stream_error of
             (ys, err) \<Rightarrow>
               \<lparr>yields = ys,
                reads = [(bucket_name, object_key, last_ending_offset, last_beginning_offset)],
                raised = err\<rparr>))"

text \<open>The body of the loop over the S3 records of one message, lines 21 to 73.\<close>

definition handle_s3_record :: "collaborators \<Rightarrow> nat \<Rightarrow> nat \<Rightarrow> json \<Rightarrow> outcome" where
  "handle_s3_record env sqs_record_n s3_record_n s3_record =
     or_raise (py_getitem s3_record ''awsRegion'') (\<lambda>aws_region.
     or_raise (py_getpath s3_record [''s3'', ''bucket'', ''arn'']) (\<lambda>bucket_arn.
     or_raise (py_getpath s3_record [''s3'', ''object'', ''key'']) (\<lambda>object_key.
     or_raise (get_or_zero s3_record ''last_ending_offset'') (\<lambda>last_ending_offset.
     or_raise (get_or_zero s3_record ''last_beginning_offset'') (\<lambda>last_beginning_offset.
     or_raise (either_empty bucket_arn object_key) (\<lambda>empty.
       if empty then raise_error (Exception ''Cannot find bucket_arn or object_key for s3'')
       else
         or_raise (get_bucket_name_from_arn env bucket_arn)
           (read_storage env sqs_record_n s3_record_n aws_region bucket_arn object_key
              last_ending_offset last_beginning_offset)))))))"

text \<open>\<open>for s3_record_n, s3_record in enumerate(body["Records"])\<close>\<close>

fun handle_s3_records :: "collaborators \<Rightarrow> nat \<Rightarrow> nat \<Rightarrow> json list \<Rightarrow> outcome" where
  "handle_s3_records env sqs_record_n s3_record_n [] = returned"
| "handle_s3_records env sqs_record_n s3_record_n (s3_record # rest) =
     followed_by (handle_s3_record env sqs_record_n s3_record_n s3_record)
       (handle_s3_records env sqs_record_n (Suc s3_record_n) rest)"

text \<open>\<open>json.loads\<close> takes a string.\<close>

definition loads :: "collaborators \<Rightarrow> json \<Rightarrow> error + json" where
  "loads env raw =
     (case raw of
        JStr s \<Rightarrow> (case json_loads env s of None \<Rightarrow> Inl JSONDecodeError | Some v \<Rightarrow> Inr v)
      | _ \<Rightarrow> Inl TypeError)"

text \<open>
  Lines 19 to 73 for one SQS record whose input is configured: the message body is
  decoded and its records are handled in order.
\<close>

definition handle_body :: "collaborators \<Rightarrow> nat \<Rightarrow> json \<Rightarrow> outcome" where
  "handle_body env sqs_record_n sqs_record =
     or_raise (py_getitem sqs_record ''body'') (\<lambda>raw.
     or_raise (loads env raw) (\<lambda>body.
     or_raise (py_getitem body ''Records'') (\<lambda>records.
     or_raise (py_iter records) (\<lambda>s3_records.
       handle_s3_records env sqs_record_n 0 s3_records))))"

text \<open>
  \<open>for sqs_record_n, sqs_record in enumerate(event["Records"])\<close>: a record without a
  configured input ends the generator by \<open>return\<close>.
\<close>

fun handle_sqs_records :: "collaborators \<Rightarrow> Config \<Rightarrow> nat \<Rightarrow> json list \<Rightarrow> outcome" where
  "handle_sqs_records env config sqs_record_n [] = returned"
| "handle_sqs_records env config sqs_record_n (sqs_record # rest) =
     or_raise (py_getitem sqs_record ''eventSourceARN'') (\<lambda>arn.
     or_raise (get_input_by_type_and_id config ''sqs'' arn) (\<lambda>event_input.
       if event_input = None then returned
       else
         followed_by (handle_body env sqs_record_n sqs_record)
           (handle_sqs_records env config (Suc sqs_record_n) rest)))"

text \<open>\<open>_handle_sqs_event\<close>\<close>

definition handle_sqs_event :: "collaborators \<Rightarrow> Config \<Rightarrow> json \<Rightarrow> outcome" where
  "handle_sqs_event env config event_value =
     or_raise (py_getitem event_value ''Records'') (\<lambda>records.
     or_raise (py_iter records) (\<lambda>sqs_records.
       handle_sqs_records env config 0 sqs_records))"

subsection \<open>Reading lines and items\<close>

text \<open>
  The ending offset of a line of the storage and of an item of the generator, and the item
  the loop yields for a line it does not skip: the decoded bytes and both offsets of the
  line, as they came.
\<close>

definition line_end :: "line \<Rightarrow> int" where
  "line_end l = snd (snd l)"

definition item_end :: "yielded \<Rightarrow> int" where
  "item_end y = fst (snd (snd y))"

definition item_of ::
  "collaborators \<Rightarrow> string \<Rightarrow> json \<Rightarrow> json \<Rightarrow> json \<Rightarrow> nat \<Rightarrow> nat \<Rightarrow> line \<Rightarrow> yielded" where
  "item_of env bucket_name bucket_arn object_key aws_region sqs_record_n s3_record_n l =
     (make_event env bucket_name bucket_arn object_key aws_region (fst l) (fst (snd l)),
      fst (snd l), snd (snd l), sqs_record_n, s3_record_n)"

section \<open>Concrete inputs for closed examples\<close>

text \<open>A stand-in for the digest: any function from bytes to text will do for an example.\<close>

definition example_hexdigest :: "bytes \<Rightarrow> string" where
  "example_hexdigest b = ''9f86d081884c7da5'' @ b"

definition example_payload :: event_payload where
  "example_payload =
     \<lparr>fields_message = ''first'',
      fields_log_offset = 5,
      fields_aws_s3_bucket_arn = ''arn:aws:s3:::logs'',
      fields_aws_s3_object_key = ''app.log'',
      data_stream = None, event = None, tags = None,
      op_type = None, index = None, ident = None\<rparr>"

definition example_lines :: "line list" where
  "example_lines = [(''first'', 0, 6), (''second'', 6, 13), (''third'', 13, 19)]"

definition example_s3_record :: json where
  "example_s3_record =
     JObj [(''awsRegion'', JStr ''eu-central-1''),
           (''s3'', JObj [(''bucket'', JObj [(''arn'', JStr ''arn:aws:s3:::logs'')]),
                          (''object'', JObj [(''key'', JStr ''app.log'')])]),
           (''last_ending_offset'', JInt 13),
           (''last_beginning_offset'', JInt 6)]"

definition empty_key_s3_record :: json where
  "empty_key_s3_record =
     JObj [(''awsRegion'', JStr ''eu-central-1''),
           (''s3'', JObj [(''bucket'', JObj [(''arn'', JStr ''arn:aws:s3:::logs'')]),
                          (''object'', JObj [(''key'', JStr [])])])]"

definition example_env :: collaborators where
  "example_env =
     \<lparr>json_loads =
        (\<lambda>s. if s = ''one'' then Some (JObj [(''Records'', JArr [example_s3_record])])
             else if s = ''two'' then Some (JObj [(''Records'', JArr [empty_key_s3_record])])
             else None),
      get_bucket_name_from_arn =
        (\<lambda>v. case v of JStr s \<Rightarrow> Inr (drop 13 s) | _ \<Rightarrow> Inl (CollaboratorError ''arn'')),
      get_by_lines = (\<lambda>bucket_name object_key range_start last_beginning_offset. (example_lines, None)),
      valid_utf8 = (\<lambda>b. True),
      py_str = (\<lambda>v. [])\<rparr>"

text \<open>
  The same collaborators with a decoder that rejects the byte strings containing
  \<open>0xFF\<close>, a byte that no UTF-8 text contains; on the lines of the examples it answers
  as Python's decoder does.
\<close>

definition strict_env :: collaborators where
  "strict_env = example_env\<lparr>valid_utf8 := (\<lambda>b. CHR 0xFF \<notin> set b)\<rparr>"

definition example_config :: Config where
  "example_config =
     \<lparr>inputs =
        [''sqs'' \<mapsto> [''arn:aws:sqs:eu-central-1:1:known'' \<mapsto>
                       \<lparr>input_type = ''sqs'', input_id = ''arn:aws:sqs:eu-central-1:1:known''\<rparr>]]\<rparr>"

definition known_sqs_record :: json where
  "known_sqs_record =
     JObj [(''eventSourceARN'', JStr ''arn:aws:sqs:eu-central-1:1:known''), (''body'', JStr ''one'')]"

definition unknown_sqs_record :: json where
  "unknown_sqs_record =
     JObj [(''eventSourceARN'', JStr ''arn:aws:sqs:eu-central-1:1:other''), (''body'', JStr ''one'')]"

section \<open>Properties of the include/exclude filter\<close>

lemma deliver_included:
  "deliver on_match_included ids s =
     ((\<exists>i \<in> set ids. i > 0),
      (if \<exists>i \<in> set ids. i > 0 then s\<lparr>is_included_matched := True\<rparr> else s))"
  by (induction ids arbitrary: s) (auto simp: on_match_included_def)

lemma deliver_excluded:
  "deliver on_match_excluded ids s =
     ((\<exists>i \<in> set ids. i > 0),
      (if \<exists>i \<in> set ids. i > 0 then s\<lparr>is_excluded_matched := True\<rparr> else s))"
  by (induction ids arbitrary: s) (auto simp: on_match_excluded_def)

lemma is_included_result:
  assumes "include_rules self = Some rule"
  shows "is_included hs self msg calls =
           (Inr (rule_matches hs rule msg \<or> runtime_error hs rule msg),
            self\<lparr>is_included_matched := rule_matches hs rule msg\<rparr>,
            calls @ [Scan (hyperscan_db rule) (encode_utf8 msg)])"
  using assms
  by (simp add: is_included_def rule_scan_def db_scan_def deliver_included
      rule_matches_def runtime_error_def)

lemma is_excluded_result:
  assumes "exclude_rules self = Some rule"
  shows "is_excluded hs self msg calls =
           (Inr (rule_matches hs rule msg \<or> runtime_error hs rule msg),
            self\<lparr>is_excluded_matched := rule_matches hs rule msg\<rparr>,
            calls @ [Scan (hyperscan_db rule) (encode_utf8 msg)])"
  using assms
  by (simp add: is_excluded_def rule_scan_def db_scan_def deliver_excluded
      rule_matches_def runtime_error_def)

lemma build_rules_cases:
  "build_rules hs pats calls = (Inr r, calls') \<Longrightarrow>
     (r = None \<and> calls' = calls \<and> (pats = None \<or> pats = Some [])) \<or>
     (\<exists>ps rule. pats = Some ps \<and> ps \<noteq> [] \<and> r = Some rule \<and> patterns rule = ps)"
  by (auto simp: build_rules_def IncludeExcludeRule_init_def Let_def
      split: option.splits if_splits sum.splits prod.splits)

lemma init_rules:
  assumes "IncludeExcludeFilter_init hs ip ep calls = (Inr f, calls')"
  shows "always_yield f = (include_rules f = None \<and> exclude_rules f = None)"
    and "include_only f = (include_rules f \<noteq> None \<and> exclude_rules f = None)"
    and "exclude_only f = (exclude_rules f \<noteq> None \<and> include_rules f = None)"
    and "include_patterns_of f = (if ip = Some [] then None else ip)"
    and "exclude_patterns_of f = (if ep = Some [] then None else ep)"
  using assms
  by (auto simp: IncludeExcludeFilter_init_def include_patterns_of_def exclude_patterns_of_def
      split: prod.splits sum.splits dest!: build_rules_cases)

lemma filter_message_result:
  assumes "always_yield f = (include_rules f = None \<and> exclude_rules f = None)"
    and "include_only f = (include_rules f \<noteq> None \<and> exclude_rules f = None)"
    and "exclude_only f = (exclude_rules f \<noteq> None \<and> include_rules f = None)"
  shows "fst (filter_message hs f msg calls) =
     Inr (if include_rules f = None \<and> exclude_rules f = None then True
          else if exclude_rules f = None then include_matches hs f msg \<or> include_error hs f msg
          else if include_rules f = None then \<not> (exclude_matches hs f msg \<or> exclude_error hs f msg)
          else \<not> (exclude_matches hs f msg \<or> exclude_error hs f msg)
               \<and> (include_matches hs f msg \<or> include_error hs f msg))"
  using assms
  by (auto simp: filter_message_def is_included_result is_excluded_result
      include_matches_def include_error_def exclude_matches_def exclude_error_def
      split: bool.splits)

lemma init_flags_irrelevant:
  assumes "IncludeExcludeFilter_init hs ip ep calls0 = (Inr f0, calls1)"
    and "f = f0\<lparr>is_included_matched := a, is_excluded_matched := b\<rparr>"
  shows "always_yield f = (include_rules f = None \<and> exclude_rules f = None)"
    and "include_only f = (include_rules f \<noteq> None \<and> exclude_rules f = None)"
    and "exclude_only f = (exclude_rules f \<noteq> None \<and> include_rules f = None)"
    and "include_patterns_of f = (if ip = Some [] then None else ip)"
    and "exclude_patterns_of f = (if ep = Some [] then None else ep)"
  using init_rules [OF assms(1)] assms(2)
  by (simp_all add: include_patterns_of_def exclude_patterns_of_def)






text \<open>
  C3, as stated: a runtime error of the matcher makes \<open>filter\<close> return \<open>True\<close>. It
  does not in the exclude scan: \<open>_is_excluded\<close> answers \<open>True\<close> on \<open>hyperscan.error\<close>,
  and a filter with only the exclude rule \<open>["error"]\<close> returns \<open>False\<close> for
  \<open>"a message"\<close> when the scan fails.
\<close>

theorem exclude_scan_error_rejects:
  "IncludeExcludeFilter_init failing_matcher None (Some [''error'']) []
     = (Inr \<lparr>include_rules = None,
             exclude_rules = Some \<lparr>patterns = [''error''], hyperscan_db = [(''error'', 1)]\<rparr>,
             always_yield = False, include_only = False, exclude_only = True,
             is_included_matched = False, is_excluded_matched = False\<rparr>,
        [Compile [''error''] [1]])
   \<and> runtime_error failing_matcher \<lparr>patterns = [''error''], hyperscan_db = [(''error'', 1)]\<rparr>
         ''a message''
   \<and> filter_message failing_matcher
        \<lparr>include_rules = None,
         exclude_rules = Some \<lparr>patterns = [''error''], hyperscan_db = [(''error'', 1)]\<rparr>,
         always_yield = False, include_only = False, exclude_only = True,
         is_included_matched = False, is_excluded_matched = False\<rparr>
        ''a message'' [Compile [''error''] [1]]
     = (Inr False,
        \<lparr>include_rules = None,
         exclude_rules = Some \<lparr>patterns = [''error''], hyperscan_db = [(''error'', 1)]\<rparr>,
         always_yield = False, include_only = False, exclude_only = True,
         is_included_matched = False, is_excluded_matched = False\<rparr>,
        [Compile [''error''] [1], Scan [(''error'', 1)] ''a message''])"
  by (simp add: IncludeExcludeFilter_init_def build_rules_def IncludeExcludeRule_init_def
      Let_def literal_matcher_def failing_matcher_def encode_utf8_def
      runtime_error_def rule_matches_def filter_message_def is_excluded_def rule_scan_def
      db_scan_def)

text \<open>
  C3, amended. Both \<open>_is_included\<close> and \<open>_is_excluded\<close> answer \<open>True\<close> when the
  scan raises. A runtime error in the exclude scan therefore makes \<open>filter\<close> return
  \<open>False\<close>; a runtime error in the include scan makes it return \<open>True\<close>, provided
  the exclude rule set, if there is one, neither matched nor failed.
\<close>

theorem matcher_error_outcome:
  assumes "IncludeExcludeFilter_init hs ip ep calls0 = (Inr f0, calls1)"
    and "f = f0\<lparr>is_included_matched := a, is_excluded_matched := b\<rparr>"
  shows "(exclude_error hs f msg \<longrightarrow> fst (filter_message hs f msg calls) = Inr False) \<and>
         (include_error hs f msg \<and> \<not> exclude_matches hs f msg \<and> \<not> exclude_error hs f msg \<longrightarrow>
            fst (filter_message hs f msg calls) = Inr True)"
proof -
  note fl = init_flags_irrelevant [OF assms]
  show ?thesis
    using filter_message_result [OF fl(1,2,3), of hs msg calls]
    by (auto simp: exclude_error_def include_error_def exclude_matches_def split: option.splits)
qed

theorem matcher_error_outcome_witness:
  "fst (filter_message failing_matcher
          \<lparr>include_rules = None,
           exclude_rules = Some \<lparr>patterns = [''error''], hyperscan_db = [(''error'', 1)]\<rparr>,
           always_yield = False, include_only = False, exclude_only = True,
           is_included_matched = False, is_excluded_matched = False\<rparr>
          ''a message'' []) = Inr False
   \<and> fst (filter_message failing_matcher
          \<lparr>include_rules = Some \<lparr>patterns = [''error''], hyperscan_db = [(''error'', 1)]\<rparr>,
           exclude_rules = None,
           always_yield = False, include_only = True, exclude_only = False,
           is_included_matched = False, is_excluded_matched = False\<rparr>
          ''a message'' []) = Inr True"
proof -
  let ?f1 = "\<lparr>include_rules = None,
           exclude_rules = Some \<lparr>patterns = [''error''], hyperscan_db = [(''error'', 1::int)]\<rparr>,
           always_yield = False, include_only = False, exclude_only = True,
           is_included_matched = False, is_excluded_matched = False\<rparr>"
  let ?f2 = "\<lparr>include_rules = Some \<lparr>patterns = [''error''], hyperscan_db = [(''error'', 1::int)]\<rparr>,
           exclude_rules = None,
           always_yield = False, include_only = True, exclude_only = False,
           is_included_matched = False, is_excluded_matched = False\<rparr>"
  have i1: "IncludeExcludeFilter_init failing_matcher None (Some [''error'']) []
            = (Inr ?f1, [Compile [''error''] [1]])"
    by (simp add: IncludeExcludeFilter_init_def build_rules_def IncludeExcludeRule_init_def
        Let_def literal_matcher_def failing_matcher_def encode_utf8_def)
  have i2: "IncludeExcludeFilter_init failing_matcher (Some [''error'']) None []
            = (Inr ?f2, [Compile [''error''] [1]])"
    by (simp add: IncludeExcludeFilter_init_def build_rules_def IncludeExcludeRule_init_def
        Let_def literal_matcher_def failing_matcher_def encode_utf8_def)
  have m1: "exclude_error failing_matcher ?f1 ''a message''"
    by (simp add: exclude_error_def runtime_error_def rule_matches_def literal_matcher_def
        failing_matcher_def encode_utf8_def)
  have m2: "include_error failing_matcher ?f2 ''a message''
            \<and> \<not> exclude_matches failing_matcher ?f2 ''a message''
            \<and> \<not> exclude_error failing_matcher ?f2 ''a message''"
    by (simp add: include_error_def exclude_error_def exclude_matches_def runtime_error_def
        rule_matches_def literal_matcher_def failing_matcher_def encode_utf8_def)
  have "fst (filter_message failing_matcher ?f1 ''a message'' []) = Inr False"
    using matcher_error_outcome [OF i1, of "?f1" False False "''a message''" "[]"] m1 by simp
  moreover have "fst (filter_message failing_matcher ?f2 ''a message'' []) = Inr True"
    using matcher_error_outcome [OF i2, of "?f2" False False "''a message''" "[]"] m2 by simp
  ultimately show ?thesis by simp
qed

text \<open>
  C9. An empty pattern list is treated like an absent one: the constructor returns the
  same object and makes the same calls to the matcher for \<open>[]\<close> as for \<open>None\<close>, in
  either position. With both lists empty it makes no call to the matcher at all, and
  \<open>filter\<close> returns \<open>True\<close> for every message, again without a call.
\<close>

theorem empty_list_like_absent:
  "IncludeExcludeFilter_init hs (Some []) ep calls = IncludeExcludeFilter_init hs None ep calls
   \<and> IncludeExcludeFilter_init hs ip (Some []) calls = IncludeExcludeFilter_init hs ip None calls
   \<and> IncludeExcludeFilter_init hs (Some []) (Some []) calls
       = (Inr \<lparr>include_rules = None, exclude_rules = None,
               always_yield = True, include_only = False, exclude_only = False,
               is_included_matched = False, is_excluded_matched = False\<rparr>, calls)
   \<and> filter_message hs
        \<lparr>include_rules = None, exclude_rules = None,
         always_yield = True, include_only = False, exclude_only = False,
         is_included_matched = a, is_excluded_matched = b\<rparr> msg calls'
       = (Inr True,
          \<lparr>include_rules = None, exclude_rules = None,
           always_yield = True, include_only = False, exclude_only = False,
           is_included_matched = a, is_excluded_matched = b\<rparr>, calls')"
proof -
  have e: "build_rules hs (Some []) = build_rules hs None"
    by (rule ext) (simp add: build_rules_def)
  have n: "build_rules hs None cs = (Inr None, cs)" for cs
    by (simp add: build_rules_def)
  show ?thesis
    unfolding IncludeExcludeFilter_init_def e
    by (simp add: n filter_message_def)
qed

theorem empty_list_like_absent_witness:
  "IncludeExcludeFilter_init (failing_matcher\<lparr>compile := (\<lambda>e i n f. None)\<rparr>) (Some []) (Some []) []
       = (Inr \<lparr>include_rules = None, exclude_rules = None,
               always_yield = True, include_only = False, exclude_only = False,
               is_included_matched = False, is_excluded_matched = False\<rparr>, [])
   \<and> filter_message (failing_matcher\<lparr>compile := (\<lambda>e i n f. None)\<rparr>)
        \<lparr>include_rules = None, exclude_rules = None,
         always_yield = True, include_only = False, exclude_only = False,
         is_included_matched = False, is_excluded_matched = False\<rparr> ''a message'' []
       = (Inr True,
          \<lparr>include_rules = None, exclude_rules = None,
           always_yield = True, include_only = False, exclude_only = False,
           is_included_matched = False, is_excluded_matched = False\<rparr>, [])"
  using empty_list_like_absent [of "failing_matcher\<lparr>compile := (\<lambda>e i n f. None)\<rparr>"
      None "[]" None False False "''a message''" "[]"]
  by simp

section \<open>Properties of the shipper\<close>

subsection \<open>Decimal digits\<close>

lemma digit_char_val: "d < 10 \<Longrightarrow> digit_val (digit_char d) = d"
proof -
  assume "d < 10"
  then have "d \<in> {0,1,2,3,4,5,6,7,8,9}" by auto
  then show ?thesis
    by (auto simp: digit_char_def digit_val_def)
qed

lemma digit_char_is_digit: "d < 10 \<Longrightarrow> is_digit (digit_char d)"
proof -
  assume "d < 10"
  then have "d \<in> {0,1,2,3,4,5,6,7,8,9}" by auto
  then show ?thesis
    by (auto simp: digit_char_def is_digit_def)
qed

lemma is_digit_of_char: "is_digit c \<Longrightarrow> of_char c = 48 + digit_val c"
  by (auto simp: is_digit_def digit_val_def)

lemma is_digit_val_less: "is_digit c \<Longrightarrow> digit_val c < 10"
  by (auto simp: is_digit_def digit_val_def)

lemma digit_less: "is_digit c \<Longrightarrow> is_digit d \<Longrightarrow> (c < d) = (digit_val c < digit_val d)"
  by (simp add: less_char_def is_digit_of_char)

lemma digit_eq: "is_digit c \<Longrightarrow> is_digit d \<Longrightarrow> (c = d) = (digit_val c = digit_val d)"
  by (auto simp: is_digit_def digit_val_def)

lemma decimal_value_append:
  "decimal_value (xs @ ys) = decimal_value xs * 10 ^ length ys + decimal_value ys"
  by (induction xs) (simp_all add: power_add algebra_simps)

lemma decimal_value_bound:
  "\<forall>c \<in> set cs. is_digit c \<Longrightarrow> decimal_value cs < 10 ^ length cs"
proof (induction cs)
  case Nil
  then show ?case by simp
next
  case (Cons c cs)
  define X :: nat where "X = 10 ^ length cs"
  have "digit_val c \<le> 9" using Cons.prems is_digit_val_less [of c] by simp
  then have "digit_val c * X \<le> 9 * X" by (rule mult_le_mono1)
  moreover have "decimal_value cs < X" using Cons by (simp add: X_def)
  ultimately have "digit_val c * X + decimal_value cs < 10 * X" by linarith
  then show ?case by (simp add: X_def)
qed

lemma digits_small: "n < 10 \<Longrightarrow> digits n = [digit_char n]"
  by (subst digits.simps) simp

lemma digits_step: "\<not> n < 10 \<Longrightarrow> digits n = digits (n div 10) @ [digit_char (n mod 10)]"
  by (subst digits.simps) simp

lemma digits_all_digit: "\<forall>c \<in> set (digits n). is_digit c"
proof (induction n rule: digits.induct)
  case (1 n)
  show ?case
  proof (cases "n < 10")
    case True
    then show ?thesis by (simp add: digits_small digit_char_is_digit)
  next
    case False
    then have "\<forall>c \<in> set (digits (n div 10)). is_digit c" by (rule "1.IH")
    then show ?thesis using False by (simp add: digits_step digit_char_is_digit)
  qed
qed

lemma decimal_value_digits: "decimal_value (digits n) = n"
proof (induction n rule: digits.induct)
  case (1 n)
  show ?case
  proof (cases "n < 10")
    case True
    then show ?thesis by (simp add: digits_small digit_char_val)
  next
    case False
    then have "decimal_value (digits (n div 10)) = n div 10" by (rule "1.IH")
    then show ?thesis using False
      by (simp add: digits_step decimal_value_append digit_char_val)
  qed
qed

lemma length_digits_le: "0 < k \<Longrightarrow> n < 10 ^ k \<Longrightarrow> length (digits n) \<le> k"
proof (induction n arbitrary: k rule: digits.induct)
  case (1 n)
  show ?case
  proof (cases "n < 10")
    case True
    then show ?thesis using "1.prems"(1) by (simp add: digits_small)
  next
    case False
    obtain j where k: "k = Suc j" using "1.prems"(1) by (cases k) auto
    have "j \<noteq> 0"
    proof
      assume "j = 0"
      then have "n < 10" using "1.prems"(2) k by simp
      then show False using False by simp
    qed
    then have "0 < j" by simp
    have "n < 10 * 10 ^ j" using "1.prems"(2) k by simp
    then have "n div 10 < 10 ^ j" by (simp add: less_mult_imp_div_less mult.commute)
    have "length (digits (n div 10)) \<le> j" 
      using "1.IH" [OF False \<open>0 < j\<close> \<open>n div 10 < 10 ^ j\<close>] .
    then show ?thesis using k False by (simp add: digits_step)
  qed
qed

lemma decimal_value_zero_fill: "decimal_value (zero_fill w s) = decimal_value s"
proof -
  have "decimal_value (replicate k (CHR ''0'')) = 0" for k
    by (induction k) (simp_all add: digit_val_def)
  then show ?thesis by (simp add: zero_fill_def decimal_value_append)
qed

lemma zero_fill_all_digit:
  assumes "\<forall>c \<in> set s. is_digit c"
  shows "\<forall>c \<in> set (zero_fill w s). is_digit c"
proof -
  have "is_digit (CHR ''0'')" by (simp add: is_digit_def)
  then show ?thesis using assms by (auto simp: zero_fill_def)
qed

lemma length_zero_fill: "length (zero_fill w s) = max w (length s)"
  by (simp add: zero_fill_def)

lemma format_012d_nonneg:
  assumes "0 \<le> offset"
  shows "decimal_value (format_012d offset) = nat offset"
    and "\<forall>c \<in> set (format_012d offset). is_digit c"
    and "12 \<le> length (format_012d offset)"
    and "offset < 10 ^ 12 \<Longrightarrow> length (format_012d offset) = 12"
proof -
  show "decimal_value (format_012d offset) = nat offset"
    using assms by (simp add: format_012d_def decimal_value_zero_fill decimal_value_digits)
  show "\<forall>c \<in> set (format_012d offset). is_digit c"
    using assms zero_fill_all_digit [OF digits_all_digit, of 12 "nat offset"]
    by (simp add: format_012d_def)
  show "12 \<le> length (format_012d offset)"
    using assms by (simp add: format_012d_def length_zero_fill)
  assume "offset < 10 ^ 12"
  then have "nat offset < 10 ^ 12" using assms by (simp add: nat_less_iff)
  then have "length (digits (nat offset)) \<le> 12" by (intro length_digits_le) simp_all
  then show "length (format_012d offset) = 12"
    using assms by (simp add: format_012d_def length_zero_fill)
qed

lemma digit_strings_order:
  "length xs = length ys \<Longrightarrow> \<forall>c \<in> set xs. is_digit c \<Longrightarrow> \<forall>c \<in> set ys. is_digit c \<Longrightarrow>
     (xs \<le> ys) = (decimal_value xs \<le> decimal_value ys)"
proof (induction xs ys rule: list_induct2)
  case Nil
  then show ?case by simp
next
  case (Cons x xs y ys)
  have bnd_x: "decimal_value xs < 10 ^ length ys"
    using decimal_value_bound [of xs] Cons by simp
  have bnd_y: "decimal_value ys < 10 ^ length ys"
    using decimal_value_bound [of ys] Cons by simp
  have dx: "is_digit x" and dy: "is_digit y" using Cons.prems by simp_all
  consider "digit_val x < digit_val y" | "digit_val x = digit_val y" | "digit_val y < digit_val x"
    by linarith
  then show ?case
  proof cases
    case 1
    then have "Suc (digit_val x) \<le> digit_val y" by simp
    then have "Suc (digit_val x) * 10 ^ length ys \<le> digit_val y * 10 ^ length ys"
      by (rule mult_le_mono1)
    then have "decimal_value (x # xs) \<le> decimal_value (y # ys)"
      using bnd_x Cons.hyps by simp
    moreover have "x < y" using 1 dx dy by (simp add: digit_less)
    ultimately show ?thesis by simp
  next
    case 2
    then have "x = y" using dx dy by (simp add: digit_eq)
    then show ?thesis using Cons by simp
  next
    case 3
    then have "Suc (digit_val y) \<le> digit_val x" by simp
    then have "Suc (digit_val y) * 10 ^ length ys \<le> digit_val x * 10 ^ length ys"
      by (rule mult_le_mono1)
    then have "decimal_value (y # ys) < decimal_value (x # xs)"
      using bnd_y Cons.hyps by simp
    moreover have "y < x" using 3 dx dy by (simp add: digit_less)
    ultimately show ?thesis by (auto simp: not_le)
  qed
qed

lemma append_le_cancel: "(p @ xs \<le> p @ ys) = (xs \<le> (ys :: 'a :: linorder list))"
  by (induction p) simp_all

text \<open>
  C4 says that \<open>flush\<close> on a pending batch of \<open>n\<close> events, \<open>1 \<le> n\<close> and \<open>n\<close> below
  the batch size, writes all of them in one bulk call and empties the batch. The test in
  \<open>flush\<close> is \<open>len(self._bulk_actions) > 1\<close>: after one \<open>send\<close> on a new shipper the
  batch holds that one event and nothing was written, and \<open>flush\<close> on a batch of one
  event makes no bulk call and empties the batch, so the event is lost.
\<close>

theorem flush_discards_single_event:
  "send sha256_hexdigest es_bulk (ElasticsearchShipper_init ds ns) ev []
     = (None,
        (ElasticsearchShipper_init ds ns)
          \<lparr>bulk_actions :=
             [ev\<lparr>data_stream := Some (''logs'', ds, ns),
                 event := Some (ds, fields_message ev),
                 tags := Some [''preserve_original_event'', ''forwarded'', replace_dot ds],
                 op_type := Some ''create'',
                 index := Some (''logs-'' @ ds @ ''-'' @ ns),
                 ident := Some (s3_object_id sha256_hexdigest ev)\<rparr>]\<rparr>,
        [])
   \<and> flush es_bulk (self\<lparr>bulk_actions := [action]\<rparr>) written
       = (None, self\<lparr>bulk_actions := []\<rparr>, written)"
  by (simp add: send_def flush_def ElasticsearchShipper_init_def enrich_event_def Let_def
      s3_object_id_def src_of_def)

text \<open>With two or more pending events the batch is written as a whole.\<close>

lemma flush_writes_longer_batch:
  assumes "1 < length (bulk_actions self)" and "es_bulk (bulk_actions self) = None"
  shows "flush es_bulk self written = (None, self\<lparr>bulk_actions := []\<rparr>, written @ [bulk_actions self])"
  using assms by (simp add: flush_def)

text \<open>
  C5. The identifier is the first ten characters of the digest of the bucket ARN followed
  by the object key, then \<open>"-"\<close>, then the offset in the format \<open>012d\<close>. For an offset
  that is not negative this is the decimal digits of the offset filled with zeros on the
  left to twelve characters: digits only, reading back as the offset, exactly twelve of
  them below \<open>10^12\<close>. Payloads with the same ARN, key and offset get the same
  identifier whatever their other fields, and replacing characters of the ARN or of the
  key (the ARN keeping its length) changes the text that is hashed.
\<close>

theorem s3_object_id_shape:
  "s3_object_id sha256_hexdigest p
     = take 10 (sha256_hexdigest (encode_utf8 (fields_aws_s3_bucket_arn p @ fields_aws_s3_object_key p)))
         @ ''-'' @ format_012d (fields_log_offset p)
   \<and> (0 \<le> fields_log_offset p \<longrightarrow>
        format_012d (fields_log_offset p) = zero_fill 12 (digits (nat (fields_log_offset p))) \<and>
        decimal_value (format_012d (fields_log_offset p)) = nat (fields_log_offset p) \<and>
        (\<forall>c \<in> set (format_012d (fields_log_offset p)). is_digit c) \<and>
        12 \<le> length (format_012d (fields_log_offset p)) \<and>
        (fields_log_offset p < 10 ^ 12 \<longrightarrow> length (format_012d (fields_log_offset p)) = 12))
   \<and> (fields_aws_s3_bucket_arn p = fields_aws_s3_bucket_arn q \<and>
        fields_aws_s3_object_key p = fields_aws_s3_object_key q \<and>
        fields_log_offset p = fields_log_offset q \<longrightarrow>
        s3_object_id sha256_hexdigest p = s3_object_id sha256_hexdigest q)
   \<and> (length (fields_aws_s3_bucket_arn p) = length (fields_aws_s3_bucket_arn q) \<and>
        (fields_aws_s3_bucket_arn p \<noteq> fields_aws_s3_bucket_arn q \<or>
         fields_aws_s3_object_key p \<noteq> fields_aws_s3_object_key q) \<longrightarrow>
        src_of p \<noteq> src_of q)"
proof -
  have shape: "s3_object_id sha256_hexdigest p
     = take 10 (sha256_hexdigest (encode_utf8 (fields_aws_s3_bucket_arn p @ fields_aws_s3_object_key p)))
         @ ''-'' @ format_012d (fields_log_offset p)"
    by (simp add: s3_object_id_def src_of_def Let_def)
  have pad: "0 \<le> fields_log_offset p \<longrightarrow>
        format_012d (fields_log_offset p) = zero_fill 12 (digits (nat (fields_log_offset p))) \<and>
        decimal_value (format_012d (fields_log_offset p)) = nat (fields_log_offset p) \<and>
        (\<forall>c \<in> set (format_012d (fields_log_offset p)). is_digit c) \<and>
        12 \<le> length (format_012d (fields_log_offset p)) \<and>
        (fields_log_offset p < 10 ^ 12 \<longrightarrow> length (format_012d (fields_log_offset p)) = 12)"
    using format_012d_nonneg [of "fields_log_offset p"] by (simp add: format_012d_def)
  have same: "fields_aws_s3_bucket_arn p = fields_aws_s3_bucket_arn q \<and>
        fields_aws_s3_object_key p = fields_aws_s3_object_key q \<and>
        fields_log_offset p = fields_log_offset q \<longrightarrow>
        s3_object_id sha256_hexdigest p = s3_object_id sha256_hexdigest q"
    by (simp add: s3_object_id_def src_of_def Let_def)
  have diff: "length (fields_aws_s3_bucket_arn p) = length (fields_aws_s3_bucket_arn q) \<and>
        (fields_aws_s3_bucket_arn p \<noteq> fields_aws_s3_bucket_arn q \<or>
         fields_aws_s3_object_key p \<noteq> fields_aws_s3_object_key q) \<longrightarrow>
        src_of p \<noteq> src_of q"
    by (auto simp: src_of_def)
  show ?thesis using shape pad same diff by blast
qed

text \<open>
  C8. For one source object and offsets \<open>a\<close>, \<open>b\<close> from \<open>0\<close> up to \<open>10^12\<close> excluded,
  the identifier of \<open>a\<close> is lexicographically at most the identifier of \<open>b\<close> exactly
  when \<open>a \<le> b\<close>. Strings are compared character by character in code-point order,
  as Python compares them.
\<close>

theorem s3_object_id_order:
  assumes "0 \<le> a" and "a < 10 ^ 12" and "0 \<le> b" and "b < 10 ^ 12"
  shows "(s3_object_id sha256_hexdigest (p\<lparr>fields_log_offset := a\<rparr>)
            \<le> s3_object_id sha256_hexdigest (p\<lparr>fields_log_offset := b\<rparr>)) = (a \<le> b)"
proof -
  let ?pre = "take 10 (sha256_hexdigest (encode_utf8 (src_of p))) @ ''-''"
  have ida: "s3_object_id sha256_hexdigest (p\<lparr>fields_log_offset := a\<rparr>) = ?pre @ format_012d a"
    by (simp add: s3_object_id_def src_of_def Let_def)
  have idb: "s3_object_id sha256_hexdigest (p\<lparr>fields_log_offset := b\<rparr>) = ?pre @ format_012d b"
    by (simp add: s3_object_id_def src_of_def Let_def)
  have len: "length (format_012d a) = length (format_012d b)"
    using format_012d_nonneg(4) [OF assms(1) assms(2)] format_012d_nonneg(4) [OF assms(3) assms(4)]
    by simp
  have "(format_012d a \<le> format_012d b)
          = (decimal_value (format_012d a) \<le> decimal_value (format_012d b))"
    using len format_012d_nonneg(2) [OF assms(1)] format_012d_nonneg(2) [OF assms(3)]
    by (rule digit_strings_order)
  also have "\<dots> = (nat a \<le> nat b)"
    using format_012d_nonneg(1) [OF assms(1)] format_012d_nonneg(1) [OF assms(3)] by simp
  also have "\<dots> = (a \<le> b)" using assms(1,3) by linarith
  finally show ?thesis by (simp only: ida idb append_le_cancel)
qed

lemma format_012d_5: "format_012d 5 = ''000000000005''"
  by code_simp

lemma format_012d_40: "format_012d 40 = ''000000000040''"
  by code_simp

theorem s3_object_id_shape_witness:
  "s3_object_id example_hexdigest example_payload = ''9f86d08188-000000000005''
   \<and> decimal_value ''000000000005'' = 5
   \<and> s3_object_id example_hexdigest (example_payload\<lparr>fields_message := ''second''\<rparr>)
       = s3_object_id example_hexdigest example_payload
   \<and> src_of example_payload
       \<noteq> src_of (example_payload\<lparr>fields_aws_s3_object_key := ''app.lag''\<rparr>)"
proof -
  have off: "fields_log_offset example_payload = 5"
    and arn: "fields_aws_s3_bucket_arn example_payload = ''arn:aws:s3:::logs''"
    and key: "fields_aws_s3_object_key example_payload = ''app.log''"
    by (simp_all add: example_payload_def)
  note t1 = s3_object_id_shape [of example_hexdigest example_payload
      "example_payload\<lparr>fields_message := ''second''\<rparr>"]
  note t2 = s3_object_id_shape [of example_hexdigest example_payload
      "example_payload\<lparr>fields_aws_s3_object_key := ''app.lag''\<rparr>"]
  have c1: "s3_object_id example_hexdigest example_payload = ''9f86d08188-000000000005''"
    using t1 [THEN conjunct1]
    by (simp add: off arn key example_hexdigest_def encode_utf8_def format_012d_5)
  have nonneg: "0 \<le> fields_log_offset example_payload" by (simp add: off)
  have "decimal_value (format_012d (fields_log_offset example_payload))
          = nat (fields_log_offset example_payload)"
    using t1 [THEN conjunct2, THEN conjunct1, THEN mp, OF nonneg] by blast
  then have "decimal_value (format_012d 5) = 5" by (simp only: off nat_numeral)
  then have c2: "decimal_value ''000000000005'' = 5" by (simp only: format_012d_5)
  have c3: "s3_object_id example_hexdigest (example_payload\<lparr>fields_message := ''second''\<rparr>)
       = s3_object_id example_hexdigest example_payload"
    using t1 [THEN conjunct2, THEN conjunct2, THEN conjunct1] by simp
  have c4: "src_of example_payload
       \<noteq> src_of (example_payload\<lparr>fields_aws_s3_object_key := ''app.lag''\<rparr>)"
    using t2 [THEN conjunct2, THEN conjunct2, THEN conjunct2] by (simp add: key)
  show ?thesis using c1 c2 c3 c4 by blast
qed

theorem s3_object_id_order_witness:
  "s3_object_id example_hexdigest (example_payload\<lparr>fields_log_offset := 5\<rparr>)
     \<le> s3_object_id example_hexdigest (example_payload\<lparr>fields_log_offset := 40\<rparr>)
   \<and> \<not> s3_object_id example_hexdigest (example_payload\<lparr>fields_log_offset := 40\<rparr>)
     \<le> s3_object_id example_hexdigest (example_payload\<lparr>fields_log_offset := 5\<rparr>)"
  using s3_object_id_order [of 5 40 example_hexdigest example_payload]
    s3_object_id_order [of 40 5 example_hexdigest example_payload]
  by simp

section \<open>Properties of the SQS handler\<close>

lemma followed_by_returned [simp]: "followed_by a returned = a"
  by (cases a) (simp add: followed_by_def returned_def split: option.splits)

lemma followed_by_raise_error [simp]: "followed_by (raise_error e) b = raise_error e"
  by (simp add: followed_by_def raise_error_def)

lemma emit_lines_int:
  "emit_lines env (JInt c) bn ba ok ar i j lines serr =
     (map (item_of env bn ba ok ar i j)
        (takeWhile (\<lambda>l. valid_utf8 env (fst l)) (filter (\<lambda>l. c \<le> line_end l) lines)),
      if \<forall>l \<in> set (filter (\<lambda>l. c \<le> line_end l) lines). valid_utf8 env (fst l)
      then serr else Some UnicodeDecodeError)"
  by (induction lines) (auto simp: Let_def decode_utf8_def item_of_def line_end_def)

lemma sorted_filter_dropWhile:
  "sorted (map f xs) \<Longrightarrow> filter (\<lambda>x. c \<le> f x) xs = dropWhile (\<lambda>x. f x < (c::int)) xs"
proof (induction xs)
  case Nil
  then show ?case by simp
next
  case (Cons x xs)
  show ?case
  proof (cases "f x < c")
    case True
    then show ?thesis using Cons by simp
  next
    case False
    then have "\<forall>y \<in> set xs. c \<le> f y" using Cons.prems by auto
    then have "filter (\<lambda>x. c \<le> f x) xs = xs" by simp
    then show ?thesis using False by simp
  qed
qed

lemma find_filter:
  "List.find P xs = Some x \<Longrightarrow> \<exists>rest. filter P xs = x # rest"
  by (induction xs) (auto split: if_splits)

lemma item_end_item_of [simp]: "item_end (item_of env bn ba ok ar i j l) = line_end l"
  by (simp add: item_end_def item_of_def line_end_def)

text \<open>
  C1, as stated: for every sequence of events of the storage, every event after the first
  one yielded is yielded too. The loop decodes the bytes of each event it does not skip
  (line 59), and bytes that are not UTF-8 end the generator there: of the three events
  below, all ending at or after the cursor \<open>0\<close>, only the first is yielded, and the
  third, which decodes, is lost to the \<open>UnicodeDecodeError\<close> of the second.
\<close>

theorem undecodable_line_ends_generator:
  "emit_lines strict_env (JInt 0) ''logs'' (JStr ''arn:aws:s3:::logs'') (JStr ''app.log'')
      (JStr ''eu-central-1'') 0 0
      [(''ok'', 0, 3), ([CHR 0xFF, CHR 0xFE], 3, 6), (''after'', 6, 12)] None
     = ([(\<lparr>message = ''ok'',
           log_offset = 0,
           log_file_path = ''https://logs.s3.app.log.amazonaws.com/app.log'',
           aws_s3_bucket_name = ''logs'',
           aws_s3_bucket_arn = JStr ''arn:aws:s3:::logs'',
           aws_s3_object_key = JStr ''app.log'',
           cloud_region = JStr ''eu-central-1''\<rparr>, 0, 3, 0, 0)],
        Some UnicodeDecodeError)"
  by (simp add: Let_def decode_utf8_def strict_env_def example_env_def make_event_def
      file_path_def format_arg_def)

text \<open>
  C1, amended. For an integer resume cursor \<open>c\<close> and every sequence of events of the
  storage, the loop yields the events that end at or after \<open>c\<close>, in stream order, up to
  the first of them whose bytes do not decode, where it ends with
  \<open>UnicodeDecodeError\<close>; when all of them decode it ends as the stream ends. Each item
  carries the event's bytes as the message, its beginning offset as the log offset, both
  offsets as they came and the record numbers. Hence no item ends before \<open>c\<close>; the first
  item is the first event in stream order that ends at or after \<open>c\<close>, when it decodes;
  and on a stream whose events all decode and whose ending offsets do not decrease, the
  items are all the events from that first one onwards.
\<close>

theorem resume_skips_before_cursor:
  "emit_lines env (JInt c) bn ba ok ar i j lines serr
     = (map (\<lambda>l. (\<lparr>message = fst l,
                    log_offset = fst (snd l),
                    log_file_path = file_path env bn ok,
                    aws_s3_bucket_name = bn,
                    aws_s3_bucket_arn = ba,
                    aws_s3_object_key = ok,
                    cloud_region = ar\<rparr>,
                  fst (snd l), snd (snd l), i, j))
          (takeWhile (\<lambda>l. valid_utf8 env (fst l)) (filter (\<lambda>l. c \<le> line_end l) lines)),
        if \<forall>l \<in> set (filter (\<lambda>l. c \<le> line_end l) lines). valid_utf8 env (fst l)
        then serr else Some UnicodeDecodeError)
   \<and> (\<forall>y \<in> set (fst (emit_lines env (JInt c) bn ba ok ar i j lines serr)). c \<le> item_end y)
   \<and> (List.find (\<lambda>l. c \<le> line_end l) lines = Some first \<and> valid_utf8 env (fst first) \<longrightarrow>
        fst (emit_lines env (JInt c) bn ba ok ar i j lines serr) \<noteq> [] \<and>
        hd (fst (emit_lines env (JInt c) bn ba ok ar i j lines serr))
          = (\<lparr>message = fst first,
              log_offset = fst (snd first),
              log_file_path = file_path env bn ok,
              aws_s3_bucket_name = bn,
              aws_s3_bucket_arn = ba,
              aws_s3_object_key = ok,
              cloud_region = ar\<rparr>,
             fst (snd first), snd (snd first), i, j))
   \<and> ((\<forall>l \<in> set lines. valid_utf8 env (fst l)) \<and> sorted (map line_end lines) \<longrightarrow>
        emit_lines env (JInt c) bn ba ok ar i j lines serr
          = (map (\<lambda>l. (\<lparr>message = fst l,
                         log_offset = fst (snd l),
                         log_file_path = file_path env bn ok,
                         aws_s3_bucket_name = bn,
                         aws_s3_bucket_arn = ba,
                         aws_s3_object_key = ok,
                         cloud_region = ar\<rparr>,
                       fst (snd l), snd (snd l), i, j))
               (dropWhile (\<lambda>l. line_end l < c) lines), serr))"
proof -
  let ?out = "emit_lines env (JInt c) bn ba ok ar i j lines serr"
  let ?keep = "filter (\<lambda>l. c \<le> line_end l) lines"
  let ?mk = "\<lambda>l. (\<lparr>message = fst l,
                    log_offset = fst (snd l),
                    log_file_path = file_path env bn ok,
                    aws_s3_bucket_name = bn,
                    aws_s3_bucket_arn = ba,
                    aws_s3_object_key = ok,
                    cloud_region = ar\<rparr>,
                  fst (snd l), snd (snd l), i, j)"
  have mk: "item_of env bn ba ok ar i j = ?mk"
    by (rule ext) (simp add: item_of_def make_event_def)
  have e: "?out = (map ?mk (takeWhile (\<lambda>l. valid_utf8 env (fst l)) ?keep),
        if \<forall>l \<in> set ?keep. valid_utf8 env (fst l) then serr else Some UnicodeDecodeError)"
    unfolding emit_lines_int mk ..
  have a: "\<forall>y \<in> set (fst ?out). c \<le> item_end y"
    by (auto simp: emit_lines_int dest!: set_takeWhileD)
  have b: "List.find (\<lambda>l. c \<le> line_end l) lines = Some first \<and> valid_utf8 env (fst first) \<longrightarrow>
        fst ?out \<noteq> [] \<and> hd (fst ?out) = ?mk first"
  proof
    assume h: "List.find (\<lambda>l. c \<le> line_end l) lines = Some first \<and> valid_utf8 env (fst first)"
    then have "List.find (\<lambda>l. c \<le> line_end l) lines = Some first" by simp
    from find_filter [OF this] obtain rest where "?keep = first # rest" by auto
    then show "fst ?out \<noteq> [] \<and> hd (fst ?out) = ?mk first"
      using h unfolding e by simp
  qed
  have d: "(\<forall>l \<in> set lines. valid_utf8 env (fst l)) \<and> sorted (map line_end lines) \<longrightarrow>
        ?out = (map ?mk (dropWhile (\<lambda>l. line_end l < c) lines), serr)"
  proof
    assume h: "(\<forall>l \<in> set lines. valid_utf8 env (fst l)) \<and> sorted (map line_end lines)"
    then have v: "\<forall>l \<in> set lines. valid_utf8 env (fst l)" and s: "sorted (map line_end lines)"
      by simp_all
    have tw: "takeWhile (\<lambda>l. valid_utf8 env (fst l)) ?keep = ?keep"
      using v by (simp add: takeWhile_eq_all_conv)
    have dw: "?keep = dropWhile (\<lambda>l. line_end l < c) lines"
      using s by (rule sorted_filter_dropWhile)
    have ok: "\<forall>l \<in> set ?keep. valid_utf8 env (fst l)" using v by simp
    have "?out = (map ?mk ?keep, serr)"
      unfolding e tw using ok by simp
    then show "?out = (map ?mk (dropWhile (\<lambda>l. line_end l < c) lines), serr)"
      unfolding dw .
  qed
  show ?thesis using e a b d by blast
qed

theorem resume_skips_before_cursor_witness:
  "emit_lines strict_env (JInt 13) ''logs'' (JStr ''arn:aws:s3:::logs'') (JStr ''app.log'')
      (JStr ''eu-central-1'') 0 0 [(''first'', 0, 6), (''second'', 6, 13), (''third'', 13, 19)] None
     = ([(\<lparr>message = ''second'',
           log_offset = 6,
           log_file_path = ''https://logs.s3.app.log.amazonaws.com/app.log'',
           aws_s3_bucket_name = ''logs'',
           aws_s3_bucket_arn = JStr ''arn:aws:s3:::logs'',
           aws_s3_object_key = JStr ''app.log'',
           cloud_region = JStr ''eu-central-1''\<rparr>, 6, 13, 0, 0),
         (\<lparr>message = ''third'',
           log_offset = 13,
           log_file_path = ''https://logs.s3.app.log.amazonaws.com/app.log'',
           aws_s3_bucket_name = ''logs'',
           aws_s3_bucket_arn = JStr ''arn:aws:s3:::logs'',
           aws_s3_object_key = JStr ''app.log'',
           cloud_region = JStr ''eu-central-1''\<rparr>, 13, 19, 0, 0)], None)
   \<and> hd (fst (emit_lines strict_env (JInt 13) ''logs'' (JStr ''arn:aws:s3:::logs'')
          (JStr ''app.log'') (JStr ''eu-central-1'') 0 0
          [(''first'', 0, 6), (''second'', 6, 13), (''third'', 13, 19)] None))
     = (\<lparr>message = ''second'',
         log_offset = 6,
         log_file_path = ''https://logs.s3.app.log.amazonaws.com/app.log'',
         aws_s3_bucket_name = ''logs'',
         aws_s3_bucket_arn = JStr ''arn:aws:s3:::logs'',
         aws_s3_object_key = JStr ''app.log'',
         cloud_region = JStr ''eu-central-1''\<rparr>, 6, 13, 0, 0)"
proof -
  let ?lines = "[(''first'', 0, 6), (''second'', 6, 13), (''third'', 13, 19)] :: line list"
  have v: "\<forall>l \<in> set ?lines. valid_utf8 strict_env (fst l)"
    by (simp add: strict_env_def)
  have s: "sorted (map line_end ?lines)"
    by (simp add: line_end_def)
  have f: "List.find (\<lambda>l. 13 \<le> line_end l) ?lines = Some (''second'', 6, 13)
           \<and> valid_utf8 strict_env (fst (''second'', 6::int, 13::int))"
    by (simp add: line_end_def strict_env_def)
  have p: "file_path strict_env ''logs'' (JStr ''app.log'')
             = ''https://logs.s3.app.log.amazonaws.com/app.log''"
    by (simp add: file_path_def format_arg_def)
  note t = resume_skips_before_cursor [of strict_env 13 "''logs''" "JStr ''arn:aws:s3:::logs''"
        "JStr ''app.log''" "JStr ''eu-central-1''" 0 0 ?lines None "(''second'', 6, 13)"]
  have whole: "emit_lines strict_env (JInt 13) ''logs'' (JStr ''arn:aws:s3:::logs'')
      (JStr ''app.log'') (JStr ''eu-central-1'') 0 0 ?lines None
     = ([(\<lparr>message = ''second'',
           log_offset = 6,
           log_file_path = ''https://logs.s3.app.log.amazonaws.com/app.log'',
           aws_s3_bucket_name = ''logs'',
           aws_s3_bucket_arn = JStr ''arn:aws:s3:::logs'',
           aws_s3_object_key = JStr ''app.log'',
           cloud_region = JStr ''eu-central-1''\<rparr>, 6, 13, 0, 0),
         (\<lparr>message = ''third'',
           log_offset = 13,
           log_file_path = ''https://logs.s3.app.log.amazonaws.com/app.log'',
           aws_s3_bucket_name = ''logs'',
           aws_s3_bucket_arn = JStr ''arn:aws:s3:::logs'',
           aws_s3_object_key = JStr ''app.log'',
           cloud_region = JStr ''eu-central-1''\<rparr>, 13, 19, 0, 0)], None)"
    using t [THEN conjunct2, THEN conjunct2, THEN conjunct2, THEN mp, OF conjI [OF v s]]
    by (simp add: line_end_def p)
  have first: "hd (fst (emit_lines strict_env (JInt 13) ''logs'' (JStr ''arn:aws:s3:::logs'')
          (JStr ''app.log'') (JStr ''eu-central-1'') 0 0 ?lines None))
     = (\<lparr>message = ''second'',
         log_offset = 6,
         log_file_path = ''https://logs.s3.app.log.amazonaws.com/app.log'',
         aws_s3_bucket_name = ''logs'',
         aws_s3_bucket_arn = JStr ''arn:aws:s3:::logs'',
         aws_s3_object_key = JStr ''app.log'',
         cloud_region = JStr ''eu-central-1''\<rparr>, 6, 13, 0, 0)"
    using t [THEN conjunct2, THEN conjunct2, THEN conjunct1, THEN mp, OF f]
    by (simp add: p)
  show ?thesis using whole first by (rule conjI)
qed

text \<open>
  Resuming is idempotent: on a stream whose lines decode and whose ending offsets are not
  negative and do not decrease, the run with cursor \<open>c\<close> yields the items of the run
  without a cursor (cursor \<open>0\<close>), less the items that end before \<open>c\<close>.
\<close>

lemma resume_is_suffix_of_full_run:
  assumes "\<forall>l \<in> set lines. valid_utf8 env (fst l)"
    and "sorted (map line_end lines)"
    and "\<forall>l \<in> set lines. 0 \<le> line_end l"
  shows "fst (emit_lines env (JInt c) bn ba ok ar i j lines serr)
           = dropWhile (\<lambda>y. item_end y < c)
               (fst (emit_lines env (JInt 0) bn ba ok ar i j lines serr))"
proof -
  have keep: "takeWhile (\<lambda>l. valid_utf8 env (fst l)) (filter P lines) = filter P lines" for P
    using assms(1) by (simp add: takeWhile_eq_all_conv)
  have full: "filter (\<lambda>l. 0 \<le> line_end l) lines = lines"
    using assms(3) by simp
  have whole: "takeWhile (\<lambda>l. valid_utf8 env (fst l)) lines = lines"
    using assms(1) by (simp add: takeWhile_eq_all_conv)
  have "fst (emit_lines env (JInt c) bn ba ok ar i j lines serr)
          = map (item_of env bn ba ok ar i j) (dropWhile (\<lambda>l. line_end l < c) lines)"
    unfolding emit_lines_int keep
    using sorted_filter_dropWhile [OF assms(2), of c] by simp
  moreover have "fst (emit_lines env (JInt 0) bn ba ok ar i j lines serr)
          = map (item_of env bn ba ok ar i j) lines"
    unfolding emit_lines_int full whole by simp
  ultimately show ?thesis by (simp add: dropWhile_map comp_def)
qed

text \<open>
  The loop runs on the stream that the storage returns for the cursor of the record.
\<close>

lemma handle_s3_record_reads:
  assumes "py_getitem s3_record ''awsRegion'' = Inr ar"
    and "py_getpath s3_record [''s3'', ''bucket'', ''arn''] = Inr ba"
    and "py_getpath s3_record [''s3'', ''object'', ''key''] = Inr ok"
    and "get_or_zero s3_record ''last_ending_offset'' = Inr leo"
    and "get_or_zero s3_record ''last_beginning_offset'' = Inr lbo"
    and "either_empty ba ok = Inr False"
    and "get_bucket_name_from_arn env ba = Inr bn"
    and "get_by_lines env bn ok leo lbo = (lines, serr)"
  shows "handle_s3_record env i j s3_record =
           \<lparr>yields = fst (emit_lines env leo bn ba ok ar i j lines serr),
            reads = [(bn, ok, leo, lbo)],
            raised = snd (emit_lines env leo bn ba ok ar i j lines serr)\<rparr>"
  using assms
  by (simp add: handle_s3_record_def or_raise_def read_storage_def split: prod.splits)

lemma either_empty_left [simp]: "either_empty (JStr []) k = Inr True"
  by (simp add: either_empty_def)

lemma either_empty_right [simp]: "either_empty a (JStr []) \<noteq> Inr False"
  by (auto simp: either_empty_def split: sum.splits)

lemma handle_s3_record_raises:
  assumes "py_getpath s3_record [''s3'', ''bucket'', ''arn''] = Inr (JStr [])
         \<or> py_getpath s3_record [''s3'', ''object'', ''key''] = Inr (JStr [])"
  shows "raised (handle_s3_record env i j s3_record) \<noteq> None
         \<and> yields (handle_s3_record env i j s3_record) = []
         \<and> reads (handle_s3_record env i j s3_record) = []"
proof -
  have "\<exists>e. handle_s3_record env i j s3_record = raise_error e"
    using assms
    by (auto simp add: handle_s3_record_def or_raise_def simp del: py_getpath.simps
        split: sum.splits)
  then show ?thesis by (auto simp: raise_error_def)
qed

lemma get_or_zero_JObj: "\<exists>v. get_or_zero (JObj kvs) k = Inr v"
  by (auto simp: get_or_zero_def split: option.splits)

text \<open>
  C7. A notification record whose bucket ARN or object key is the empty string: handling
  it ends with an exception, yields nothing and reads no storage, and the records after
  it in the same message are not handled. When the record has its region and both
  values are strings, the exception is the one raised by the check in line 28.
\<close>

theorem empty_arn_or_key_is_fatal:
  assumes "py_getpath s3_record [''s3'', ''bucket'', ''arn''] = Inr (JStr [])
         \<or> py_getpath s3_record [''s3'', ''object'', ''key''] = Inr (JStr [])"
  shows "raised (handle_s3_record env i j s3_record) \<noteq> None
         \<and> yields (handle_s3_record env i j s3_record) = []
         \<and> reads (handle_s3_record env i j s3_record) = []
         \<and> handle_s3_records env i j (s3_record # rest) = handle_s3_record env i j s3_record
         \<and> (py_getitem s3_record ''awsRegion'' = Inr region
              \<and> py_getpath s3_record [''s3'', ''bucket'', ''arn''] = Inr (JStr a)
              \<and> py_getpath s3_record [''s3'', ''object'', ''key''] = Inr (JStr k) \<longrightarrow>
            handle_s3_record env i j s3_record
              = raise_error (Exception ''Cannot find bucket_arn or object_key for s3''))"
proof -
  note r = handle_s3_record_raises [OF assms, of env i j]
  have seq: "handle_s3_records env i j (s3_record # rest) = handle_s3_record env i j s3_record"
    using r by (auto simp: followed_by_def split: option.splits)
  have exc: "py_getitem s3_record ''awsRegion'' = Inr region
              \<and> py_getpath s3_record [''s3'', ''bucket'', ''arn''] = Inr (JStr a)
              \<and> py_getpath s3_record [''s3'', ''object'', ''key''] = Inr (JStr k) \<longrightarrow>
            handle_s3_record env i j s3_record
              = raise_error (Exception ''Cannot find bucket_arn or object_key for s3'')"
  proof
    assume h: "py_getitem s3_record ''awsRegion'' = Inr region
              \<and> py_getpath s3_record [''s3'', ''bucket'', ''arn''] = Inr (JStr a)
              \<and> py_getpath s3_record [''s3'', ''object'', ''key''] = Inr (JStr k)"
    then obtain kvs where o: "s3_record = JObj kvs" by (cases s3_record) auto
    obtain leo lbo where g: "get_or_zero s3_record ''last_ending_offset'' = Inr leo"
      "get_or_zero s3_record ''last_beginning_offset'' = Inr lbo"
      using get_or_zero_JObj [of kvs] o by blast
    have "a = [] \<or> k = []" using assms h by auto
    then have "either_empty (JStr a) (JStr k) = Inr True"
      by (auto simp: either_empty_def)
    then show "handle_s3_record env i j s3_record
              = raise_error (Exception ''Cannot find bucket_arn or object_key for s3'')"
      using h g by (simp add: handle_s3_record_def or_raise_def del: py_getpath.simps)
  qed
  show ?thesis using r seq exc by blast
qed

theorem empty_arn_or_key_is_fatal_witness:
  "handle_s3_record example_env 0 0 empty_key_s3_record
     = \<lparr>yields = [], reads = [],
        raised = Some (Exception ''Cannot find bucket_arn or object_key for s3'')\<rparr>"
proof -
  have k: "py_getpath empty_key_s3_record [''s3'', ''object'', ''key''] = Inr (JStr [])"
    by (simp add: empty_key_s3_record_def)
  have a: "py_getpath empty_key_s3_record [''s3'', ''bucket'', ''arn'']
             = Inr (JStr ''arn:aws:s3:::logs'')"
    by (simp add: empty_key_s3_record_def)
  have r: "py_getitem empty_key_s3_record ''awsRegion'' = Inr (JStr ''eu-central-1'')"
    by (simp add: empty_key_s3_record_def)
  show ?thesis
    using empty_arn_or_key_is_fatal [of empty_key_s3_record example_env 0 0 "[]"
        "JStr ''eu-central-1''" "''arn:aws:s3:::logs''" "[]"] k a r
    by (simp add: raise_error_def)
qed

lemma handle_sqs_records_stop:
  assumes "py_getitem sqs_record ''eventSourceARN'' = Inr arn"
    and "get_input_by_type_and_id config ''sqs'' arn = Inr None"
  shows "handle_sqs_records env config n (before @ sqs_record # rest)
           = handle_sqs_records env config n before"
proof (induction before arbitrary: n)
  case Nil
  show ?case using assms by (simp add: or_raise_def)
next
  case (Cons r before)
  show ?case
    by (simp add: or_raise_def Cons.IH split: sum.splits)
qed

text \<open>
  C10. An SQS record whose \<open>eventSourceARN\<close> has no input of type \<open>sqs\<close> in the
  configuration ends the generator by \<open>return\<close>: draining the notification gives what
  draining the records before that one gives, so nothing is yielded, read or raised for
  that record or for a later one.
\<close>

theorem unknown_input_ends_generator:
  assumes "py_getitem sqs_record ''eventSourceARN'' = Inr arn"
    and "get_input_by_type_and_id config ''sqs'' arn = Inr None"
  shows "handle_sqs_records env config n (sqs_record # rest) = returned
         \<and> handle_sqs_records env config n (before @ sqs_record # rest)
             = handle_sqs_records env config n before
         \<and> handle_sqs_event env config (JObj [(''Records'', JArr (before @ sqs_record # rest))])
             = handle_sqs_event env config (JObj [(''Records'', JArr before)])"
proof -
  have a: "handle_sqs_records env config n (sqs_record # rest) = returned"
    using assms by (simp add: or_raise_def)
  have b: "handle_sqs_records env config m (before @ sqs_record # rest)
             = handle_sqs_records env config m before" for m
    using assms by (rule handle_sqs_records_stop)
  have c: "handle_sqs_event env config (JObj [(''Records'', JArr (before @ sqs_record # rest))])
             = handle_sqs_event env config (JObj [(''Records'', JArr before)])"
    by (simp add: handle_sqs_event_def or_raise_def b)
  show ?thesis using a b c by blast
qed

lemma example_known_outcome:
  "handle_sqs_records example_env example_config 0 [known_sqs_record]
     = \<lparr>yields =
          [item_of example_env ''logs'' (JStr ''arn:aws:s3:::logs'') (JStr ''app.log'')
             (JStr ''eu-central-1'') 0 0 (''second'', 6, 13),
           item_of example_env ''logs'' (JStr ''arn:aws:s3:::logs'') (JStr ''app.log'')
             (JStr ''eu-central-1'') 0 0 (''third'', 13, 19)],
        reads = [(''logs'', JStr ''app.log'', JInt 13, JInt 6)],
        raised = None\<rparr>"
  by (simp add: known_sqs_record_def example_config_def example_env_def example_s3_record_def
      example_lines_def or_raise_def get_input_by_type_and_id_def handle_body_def loads_def
      handle_s3_record_def get_or_zero_def either_empty_def read_storage_def Let_def
      decode_utf8_def item_of_def followed_by_def returned_def)

theorem unknown_input_ends_generator_witness:
  "handle_sqs_event example_env example_config
     (JObj [(''Records'', JArr [known_sqs_record, unknown_sqs_record, known_sqs_record])])
     = \<lparr>yields =
          [item_of example_env ''logs'' (JStr ''arn:aws:s3:::logs'') (JStr ''app.log'')
             (JStr ''eu-central-1'') 0 0 (''second'', 6, 13),
           item_of example_env ''logs'' (JStr ''arn:aws:s3:::logs'') (JStr ''app.log'')
             (JStr ''eu-central-1'') 0 0 (''third'', 13, 19)],
        reads = [(''logs'', JStr ''app.log'', JInt 13, JInt 6)],
        raised = None\<rparr>"
proof -
  have g: "py_getitem unknown_sqs_record ''eventSourceARN''
             = Inr (JStr ''arn:aws:sqs:eu-central-1:1:other'')"
    by (simp add: unknown_sqs_record_def)
  have n: "get_input_by_type_and_id example_config ''sqs''
             (JStr ''arn:aws:sqs:eu-central-1:1:other'') = Inr None"
    by (simp add: get_input_by_type_and_id_def example_config_def)
  have "handle_sqs_event example_env example_config
          (JObj [(''Records'', JArr [known_sqs_record, unknown_sqs_record, known_sqs_record])])
        = handle_sqs_event example_env example_config (JObj [(''Records'', JArr [known_sqs_record])])"
    using unknown_input_ends_generator [OF g n, of example_env 0 "[known_sqs_record]"
        "[known_sqs_record]"] by simp
  also have "\<dots> = handle_sqs_records example_env example_config 0 [known_sqs_record]"
    by (simp add: handle_sqs_event_def or_raise_def)
  finally show ?thesis by (simp only: example_known_outcome)
qed

end
